theory Spec2Isabelle
  imports Main "HOL-Library.Word"
begin

section \<open>JavaScript values used by the storage layer\<close>

text \<open>
  A JavaScript string is a sequence of 16-bit code units, a Node \<open>Buffer\<close> a sequence of
  octets. String literals of the source are written \<open>js ''...''\<close>.
\<close>

type_synonym jsstring = "16 word list"
type_synonym buffer = "8 word list"

definition js :: "string \<Rightarrow> jsstring" where
  "js s = map of_char s"

text \<open>
  Thrown values. The source only throws and inspects \<open>Error\<close> objects (\<open>e.message\<close>);
  the built-ins it calls throw \<open>TypeError\<close> and \<open>URIError\<close>.
\<close>

datatype js_error_class = JsError | JsTypeError | JsURIError | JsSyntaxError

datatype js_exn = Thrown (exn_class: js_error_class) (message: jsstring)

text \<open>Truthiness of an optional string: \<open>undefined\<close> and the empty string are falsy.\<close>

fun truthy :: "jsstring option \<Rightarrow> bool" where
  "truthy None = False"
| "truthy (Some s) = (s \<noteq> [])"

text \<open>\<open>a || d\<close> for an optional string \<open>a\<close> and a string \<open>d\<close>.\<close>

definition or_default :: "jsstring option \<Rightarrow> jsstring \<Rightarrow> jsstring" where
  "or_default a d = (case a of None \<Rightarrow> d | Some s \<Rightarrow> if s = [] then d else s)"

text \<open>\<open>String.prototype.endsWith\<close> and \<open>String.prototype.includes\<close>.\<close>

definition endsWith :: "jsstring \<Rightarrow> jsstring \<Rightarrow> bool" where
  "endsWith s suffix = (length suffix \<le> length s \<and> drop (length s - length suffix) s = suffix)"

fun includes_str :: "jsstring \<Rightarrow> jsstring \<Rightarrow> bool" where
  "includes_str [] sub = (sub = [])"
| "includes_str (c # cs) sub = (take (length sub) (c # cs) = sub \<or> includes_str cs sub)"

subsection \<open>encodeURIComponent\<close>

text \<open>
  The built-in \<open>encodeURIComponent\<close> (ECMA-262, abstract operation Encode with the
  unreserved set of URI components): a code unit of the unreserved set is copied; any
  other code point is written as the \<open>%XX\<close> escapes of its UTF-8 octets; an unpaired
  surrogate raises \<open>URIError\<close>.
\<close>

definition uriUnescaped :: "16 word \<Rightarrow> bool" where
  "uriUnescaped c =
     ((0x41 \<le> c \<and> c \<le> 0x5A) \<or> (0x61 \<le> c \<and> c \<le> 0x7A) \<or> (0x30 \<le> c \<and> c \<le> 0x39)
      \<or> c \<in> {0x2D, 0x5F, 0x2E, 0x21, 0x7E, 0x2A, 0x27, 0x28, 0x29})"

definition isLeadSurrogate :: "16 word \<Rightarrow> bool" where
  "isLeadSurrogate c = (0xD800 \<le> c \<and> c \<le> 0xDBFF)"

definition isTrailSurrogate :: "16 word \<Rightarrow> bool" where
  "isTrailSurrogate c = (0xDC00 \<le> c \<and> c \<le> 0xDFFF)"

definition surrogatePairToCodePoint :: "16 word \<Rightarrow> 16 word \<Rightarrow> nat" where
  "surrogatePairToCodePoint lead trail =
     (unat lead - 0xD800) * 0x400 + (unat trail - 0xDC00) + 0x10000"

definition utf8Octets :: "nat \<Rightarrow> nat list" where
  "utf8Octets cp =
     (if cp < 0x80 then [cp]
      else if cp < 0x800 then [0xC0 + cp div 64, 0x80 + cp mod 64]
      else if cp < 0x10000 then [0xE0 + cp div 4096, 0x80 + (cp div 64) mod 64, 0x80 + cp mod 64]
      else [0xF0 + cp div 262144, 0x80 + (cp div 4096) mod 64, 0x80 + (cp div 64) mod 64,
            0x80 + cp mod 64])"

definition hexDigit :: "nat \<Rightarrow> 16 word" where
  "hexDigit n = (if n < 10 then of_nat (0x30 + n) else of_nat (0x41 + (n - 10)))"

definition percentEscape :: "nat \<Rightarrow> jsstring" where
  "percentEscape octet = [0x25, hexDigit (octet div 16), hexDigit (octet mod 16)]"

definition escapeCodePoint :: "nat \<Rightarrow> jsstring" where
  "escapeCodePoint cp = concat (map percentEscape (utf8Octets cp))"

fun encodeURIComponent :: "jsstring \<Rightarrow> js_exn + jsstring" where
  "encodeURIComponent [] = Inr []"
| "encodeURIComponent (c # cs) =
     (if uriUnescaped c then
        (case encodeURIComponent cs of Inl e \<Rightarrow> Inl e | Inr r \<Rightarrow> Inr (c # r))
      else if isTrailSurrogate c then Inl (Thrown JsURIError (js ''URI malformed''))
      else if isLeadSurrogate c then
        (case cs of
           [] \<Rightarrow> Inl (Thrown JsURIError (js ''URI malformed''))
         | d # ds \<Rightarrow>
             if isTrailSurrogate d then
               (case encodeURIComponent ds of
                  Inl e \<Rightarrow> Inl e
                | Inr r \<Rightarrow> Inr (escapeCodePoint (surrogatePairToCodePoint c d) @ r))
             else Inl (Thrown JsURIError (js ''URI malformed'')))
      else
        (case encodeURIComponent cs of
           Inl e \<Rightarrow> Inl e
         | Inr r \<Rightarrow> Inr (escapeCodePoint (unat c) @ r)))"


text \<open>
  \<open>String.prototype.isWellFormed\<close>: the string has no unpaired surrogate.
\<close>

fun isWellFormed :: "jsstring \<Rightarrow> bool" where
  "isWellFormed [] = True"
| "isWellFormed (c # cs) =
     (if isLeadSurrogate c then
        (case cs of [] \<Rightarrow> False | d # ds \<Rightarrow> isTrailSurrogate d \<and> isWellFormed ds)
      else \<not> isTrailSurrogate c \<and> isWellFormed cs)"

subsection \<open>Buffer.from and buffer.toString\<close>

text \<open>
  \<open>Buffer.from(string)\<close> writes the string in UTF-8: a surrogate pair as the four octets of
  its code point, an unpaired surrogate as the octets \<open>EF BF BD\<close> of U+FFFD.
\<close>

definition utf8Bytes :: "nat \<Rightarrow> buffer" where
  "utf8Bytes cp = map of_nat (utf8Octets cp)"

fun Buffer_from_utf8 :: "jsstring \<Rightarrow> buffer" where
  "Buffer_from_utf8 [] = []"
| "Buffer_from_utf8 (c # cs) =
     (if isLeadSurrogate c then
        (case cs of
           [] \<Rightarrow> [0xEF, 0xBF, 0xBD]
         | d # ds \<Rightarrow>
             if isTrailSurrogate d
             then utf8Bytes (surrogatePairToCodePoint c d) @ Buffer_from_utf8 ds
             else [0xEF, 0xBF, 0xBD] @ Buffer_from_utf8 cs)
      else if isTrailSurrogate c then [0xEF, 0xBF, 0xBD] @ Buffer_from_utf8 cs
      else utf8Bytes (unat c) @ Buffer_from_utf8 cs)"

text \<open>
  \<open>buffer.toString()\<close> reads UTF-8 octet by octet. The decoder keeps the code point built so
  far, the number of continuation octets still needed and the range allowed for the next
  one; an octet that cannot start or continue a sequence yields U+FFFD, and an octet that
  breaks a sequence is then read again as a first octet. A sequence cut off by the end of the
  buffer yields U+FFFD.
\<close>

type_synonym utf8_decoder = "nat \<times> nat \<times> nat \<times> nat"

definition decoder_idle :: utf8_decoder where
  "decoder_idle = (0, 0, 0x80, 0xBF)"

definition utf16Units :: "nat \<Rightarrow> jsstring" where
  "utf16Units cp =
     (if cp < 0x10000 then [of_nat cp]
      else [of_nat (0xD800 + (cp - 0x10000) div 1024), of_nat (0xDC00 + (cp - 0x10000) mod 1024)])"

definition decoder_start :: "nat \<Rightarrow> jsstring \<times> utf8_decoder" where
  "decoder_start b =
     (if b < 0x80 then ([of_nat b], decoder_idle)
      else if 0xC2 \<le> b \<and> b \<le> 0xDF then ([], (b mod 32, 1, 0x80, 0xBF))
      else if 0xE0 \<le> b \<and> b \<le> 0xEF then
        ([], (b mod 16, 2, if b = 0xE0 then 0xA0 else 0x80, if b = 0xED then 0x9F else 0xBF))
      else if 0xF0 \<le> b \<and> b \<le> 0xF4 then
        ([], (b mod 8, 3, if b = 0xF0 then 0x90 else 0x80, if b = 0xF4 then 0x8F else 0xBF))
      else ([0xFFFD], decoder_idle))"

fun decoder_step :: "utf8_decoder \<Rightarrow> nat \<Rightarrow> jsstring \<times> utf8_decoder" where
  "decoder_step (cp, needed, lo, hi) b =
     (if needed = 0 then decoder_start b
      else if lo \<le> b \<and> b \<le> hi then
        (if needed = 1 then (utf16Units (cp * 64 + b mod 64), decoder_idle)
         else ([], (cp * 64 + b mod 64, needed - 1, 0x80, 0xBF)))
      else (case decoder_start b of (out, st) \<Rightarrow> (0xFFFD # out, st)))"

fun utf8_decode :: "utf8_decoder \<Rightarrow> buffer \<Rightarrow> jsstring" where
  "utf8_decode (cp, needed, lo, hi) [] = (if needed = 0 then [] else [0xFFFD])"
| "utf8_decode st (b # bs) =
     (case decoder_step st (unat b) of (out, st') \<Rightarrow> out @ utf8_decode st' bs)"

definition toString_utf8 :: "buffer \<Rightarrow> jsstring" where
  "toString_utf8 buf = utf8_decode decoder_idle buf"

subsection \<open>parseInt\<close>

text \<open>
  \<open>parseInt(s, 10)\<close>: leading white space is dropped, a sign is read, and the longest run
  of decimal digits gives the integer; \<open>None\<close> is \<open>NaN\<close>. The value is the mathematical
  integer, which is the Number returned for every value below \<open>2^53\<close>.
\<close>

definition isStrWhiteSpaceChar :: "16 word \<Rightarrow> bool" where
  "isStrWhiteSpaceChar c =
     (c \<in> {0x9, 0xA, 0xB, 0xC, 0xD, 0x20, 0xA0, 0x1680, 0x2028, 0x2029, 0x202F, 0x205F, 0x3000, 0xFEFF}
      \<or> (0x2000 \<le> c \<and> c \<le> 0x200A))"

definition isDecimalDigit :: "16 word \<Rightarrow> bool" where
  "isDecimalDigit c = (0x30 \<le> c \<and> c \<le> 0x39)"

definition parseInt10 :: "jsstring \<Rightarrow> int option" where
  "parseInt10 s =
     (let trimmed = dropWhile isStrWhiteSpaceChar s;
          negative = (case trimmed of [] \<Rightarrow> False | c # cs \<Rightarrow> c = 0x2D);
          unsigned = (case trimmed of [] \<Rightarrow> [] | c # cs \<Rightarrow> if c = 0x2B \<or> c = 0x2D then cs else trimmed);
          digits = takeWhile isDecimalDigit unsigned;
          mathInt = foldl (\<lambda>a c. 10 * a + int (unat c - 0x30)) 0 digits
      in if digits = [] then None else Some (if negative then - mathInt else mathInt))"

text \<open>The nullish coalescing operator \<open>a ?? d\<close> and a caught-or-propagated result.\<close>

definition nullish :: "'a option \<Rightarrow> 'a \<Rightarrow> 'a" where
  "nullish a d = (case a of None \<Rightarrow> d | Some v \<Rightarrow> v)"

definition bindE :: "js_exn + 'a \<Rightarrow> ('a \<Rightarrow> js_exn + 'b) \<Rightarrow> js_exn + 'b" where
  "bindE m f = (case m of Inl e \<Rightarrow> Inl e | Inr x \<Rightarrow> f x)"

section \<open>Configuration loading\<close>

text \<open>
  The process as the configuration module sees it: \<open>process.env\<close> (a variable that is
  not set reads as \<open>undefined\<close>) and \<open>process.argv\<close>.
\<close>

record process =
  penv :: "jsstring \<rightharpoonup> jsstring"
  argv :: "jsstring list"

datatype StorageBackend = Backend_gcs | Backend_s3

record aws_config =
  access_key :: jsstring
  secret_key :: jsstring

record s3_config =
  s3_bucket :: jsstring
  s3_imports_bucket :: jsstring
  s3_region :: jsstring

record gcs_config =
  gcs_projectId :: jsstring
  gcs_bucket :: jsstring
  gcs_imports_bucket :: jsstring

text \<open>
  The type \<open>Config\<close>. The port is what \<open>parseInt\<close> returns; \<open>parseInt\<close> and \<open>path.join\<close>
  are parameters of the loader.
\<close>

record 'n Config =
  port :: 'n
  registry :: jsstring
  tmpdir :: jsstring
  url :: jsstring
  storageBackend :: StorageBackend
  redis_url :: jsstring
  aws :: "aws_config option"
  s3 :: "s3_config option"
  gcs :: "gcs_config option"
  cloudfront_url :: jsstring
  api_url :: jsstring
  sentry_dsn :: "jsstring option"

text \<open>
  \<open>process.argv[1].endsWith('cli.js')\<close>: reading \<open>endsWith\<close> of \<open>undefined\<close> raises
  \<open>TypeError\<close> when the process has no entry script.
\<close>

definition argv1_endsWith_cli :: "process \<Rightarrow> js_exn + bool" where
  "argv1_endsWith_cli p =
     (if length (argv p) < 2
      then Inl (Thrown JsTypeError
                  (js ''Cannot read properties of undefined (reading 'endsWith')''))
      else Inr (endsWith (argv p ! 1) (js ''cli.js'')))"

definition env :: "process \<Rightarrow> jsstring \<Rightarrow> jsstring option \<Rightarrow> js_exn + jsstring" where
  "env p varName testValue =
     (let envVar = penv p varName in
      if \<not> truthy envVar then
        (if penv p (js ''NODE_ENV'') = Some (js ''test'')
         then Inr (nullish testValue (js ''noop''))
         else bindE (argv1_endsWith_cli p) (\<lambda>cli.
           if cli then Inr (nullish testValue (js ''noop''))
           else Inl (Thrown JsError
                       (js ''environment variable '' @ varName @ js '' isn't specified''))))
      else Inr (the envVar))"

text \<open>
  The condition under which \<open>env\<close> returns the placeholder for a missing variable:
  \<open>process.env.NODE_ENV === 'test' || process.argv[1].endsWith('cli.js')\<close> holds.
\<close>

definition fallback_mode :: "process \<Rightarrow> bool" where
  "fallback_mode p =
     (penv p (js ''NODE_ENV'') = Some (js ''test'')
      \<or> (2 \<le> length (argv p) \<and> endsWith (argv p ! 1) (js ''cli.js'')))"

definition optionalEnv :: "process \<Rightarrow> jsstring \<Rightarrow> jsstring option \<Rightarrow> jsstring option" where
  "optionalEnv p varName defaultValue =
     (if truthy (penv p varName) then penv p varName else defaultValue)"

text \<open>\<open>const useGCS = !!process.env.GCS_PROJECT_ID || !!process.env.USE_GCS\<close>\<close>

definition useGCS :: "process \<Rightarrow> bool" where
  "useGCS p = (truthy (penv p (js ''GCS_PROJECT_ID'')) \<or> truthy (penv p (js ''USE_GCS'')))"


text \<open>
  The module body of the configuration file: the object literal is evaluated field by
  field, so the first missing variable decides the error; then the storage section for
  the chosen backend, then the Sentry section.
\<close>

definition storage_section :: "process \<Rightarrow> 'n Config \<Rightarrow> js_exn + 'n Config" where
  "storage_section p config =
     (if useGCS p then
        bindE (env p (js ''GCS_PROJECT_ID'') None) (\<lambda>projectId.
        bindE (env p (js ''GCS_BUCKET'') None) (\<lambda>b.
        bindE (env p (js ''GCS_IMPORTS_BUCKET'') None) (\<lambda>ib.
        Inr (config\<lparr>gcs := Some \<lparr>gcs_projectId = projectId, gcs_bucket = b,
                                  gcs_imports_bucket = ib\<rparr>\<rparr>))))
      else
        bindE (env p (js ''AWS_ACCESS_KEY_ID'') None) (\<lambda>ak.
        bindE (env p (js ''AWS_SECRET_ACCESS_KEY'') None) (\<lambda>sk.
        bindE (env p (js ''S3_BUCKET'') None) (\<lambda>b.
        bindE (env p (js ''IMPORTS_S3_BUCKET'') None) (\<lambda>ib.
        bindE (env p (js ''S3_REGION'') None) (\<lambda>r.
        Inr (config\<lparr>aws := Some \<lparr>access_key = ak, secret_key = sk\<rparr>,
                    s3 := Some \<lparr>s3_bucket = b, s3_imports_bucket = ib, s3_region = r\<rparr>\<rparr>)))))))"

definition sentry_section :: "process \<Rightarrow> 'n Config \<Rightarrow> js_exn + 'n Config" where
  "sentry_section p config =
     (if \<not> truthy (penv p (js ''DISABLE_INSTRUMENTATION''))
         \<and> penv p (js ''NODE_ENV'') = Some (js ''production'')
      then bindE (env p (js ''SENTRY_DSN'') None) (\<lambda>dsn. Inr (config\<lparr>sentry_dsn := Some dsn\<rparr>))
      else Inr config)"

definition load_config ::
  "(jsstring \<Rightarrow> 'n) \<Rightarrow> (jsstring \<Rightarrow> jsstring \<Rightarrow> jsstring) \<Rightarrow> process \<Rightarrow> js_exn + 'n Config" where
  "load_config parseInt path_join p =
     bindE (env p (js ''IMPORT_SERVER_URL'') None) (\<lambda>u.
     bindE (env p (js ''REDIS_URL'') None) (\<lambda>redis.
     bindE (env p (js ''CLOUDFRONT_URL'') None) (\<lambda>cf.
     bindE (env p (js ''API_SERVER_URL'') (Some (js ''https://test.exp.host''))) (\<lambda>api.
     bindE (storage_section p
              \<lparr>port = parseInt (nullish (penv p (js ''PORT'')) (js ''3012'')),
               registry = js ''https://registry.yarnpkg.com'',
               tmpdir = path_join (nullish (penv p (js ''TMPDIR'')) (js ''/tmp'')) (js ''snackager''),
               url = u,
               storageBackend = (if useGCS p then Backend_gcs else Backend_s3),
               redis_url = redis,
               aws = None, s3 = None, gcs = None,
               cloudfront_url = cf,
               api_url = api,
               sentry_dsn = None\<rparr>)
       (sentry_section p)))))"


section \<open>Logging and the world outside the process\<close>

text \<open>
  A logger call appends one entry: the level, the fields of the object passed first and
  the message. The state threaded through every asynchronous operation is the state of
  the storage provider together with the log written so far.
\<close>

datatype log_level = LogInfo | LogWarn | LogError

datatype log_value = LogStr jsstring | LogExn js_exn

record log_entry =
  log_level :: log_level
  log_fields :: "(string \<times> log_value) list"
  log_msg :: jsstring

record 'p world =
  cloud :: 'p
  logs :: "log_entry list"

definition logger :: "log_level \<Rightarrow> (string \<times> log_value) list \<Rightarrow> jsstring \<Rightarrow> 'p world \<Rightarrow> 'p world" where
  "logger lv fs m w = w\<lparr>logs := logs w @ [\<lparr>log_level = lv, log_fields = fs, log_msg = m\<rparr>]\<rparr>"

section \<open>The storage abstraction layer\<close>

record UploadResult =
  location :: jsstring
  bucket :: jsstring
  key :: jsstring

record UploadOptions =
  contentType :: "jsstring option"
  cacheControl :: "jsstring option"
  acl :: "jsstring option"

text \<open>\<open>options?.field\<close>\<close>

definition opt_field :: "UploadOptions option \<Rightarrow> (UploadOptions \<Rightarrow> jsstring option) \<Rightarrow> jsstring option" where
  "opt_field options f = (case options of None \<Rightarrow> None | Some opts \<Rightarrow> f opts)"

text \<open>The interface \<open>StorageClient\<close>: four asynchronous operations.\<close>

record 'p StorageClient =
  uploadFile :: "jsstring \<Rightarrow> jsstring \<Rightarrow> buffer \<Rightarrow> UploadOptions option \<Rightarrow> 'p world
                 \<Rightarrow> (js_exn + UploadResult option) \<times> 'p world"
  getFile :: "jsstring \<Rightarrow> jsstring \<Rightarrow> 'p world \<Rightarrow> (js_exn + buffer option) \<times> 'p world"
  deleteFile :: "jsstring \<Rightarrow> jsstring \<Rightarrow> 'p world \<Rightarrow> (js_exn + unit) \<times> 'p world"
  fileExists :: "jsstring \<Rightarrow> jsstring \<Rightarrow> 'p world \<Rightarrow> (js_exn + bool) \<times> 'p world"

subsection \<open>The S3 client\<close>

text \<open>
  The boundary to the AWS SDK: the requests the source builds, the fields of the
  responses it reads, and the SDK's \<open>S3\<close> object as a record of operations on the
  provider's state. Each operation resolves (\<open>Inr\<close>) or rejects (\<open>Inl\<close>).
\<close>

record S3_upload_request =
  up_Bucket :: jsstring
  up_Key :: jsstring
  up_Body :: buffer
  up_ACL :: jsstring
  up_CacheControl :: jsstring
  up_ContentType :: "jsstring option"

record S3_SendData =
  sd_Location :: jsstring
  sd_Bucket :: jsstring
  sd_Key :: jsstring

record S3_putObject_request =
  put_Bucket :: jsstring
  put_Key :: jsstring
  put_Body :: jsstring
  put_ACL :: jsstring
  put_CacheControl :: jsstring
  put_WebsiteRedirectLocation :: jsstring

record ('p, 'ack) S3 =
  upload :: "S3_upload_request \<Rightarrow> 'p \<Rightarrow> (js_exn + S3_SendData) \<times> 'p"
  getObject :: "jsstring \<Rightarrow> jsstring \<Rightarrow> 'p \<Rightarrow> (js_exn + buffer option) \<times> 'p"
  deleteObject :: "jsstring \<Rightarrow> jsstring \<Rightarrow> 'p \<Rightarrow> (js_exn + unit) \<times> 'p"
  headObject :: "jsstring \<Rightarrow> jsstring \<Rightarrow> 'p \<Rightarrow> (js_exn + unit) \<times> 'p"
  putObject :: "S3_putObject_request \<Rightarrow> 'p \<Rightarrow> (js_exn + 'ack) \<times> 'p"

text \<open>The parameter object of \<open>this.s3.upload\<close> in \<open>S3StorageClient.uploadFile\<close>.\<close>

definition S3_upload_params ::
  "jsstring \<Rightarrow> jsstring \<Rightarrow> buffer \<Rightarrow> UploadOptions option \<Rightarrow> S3_upload_request" where
  "S3_upload_params b k body options =
     \<lparr>up_Bucket = b, up_Key = k, up_Body = body,
      up_ACL = or_default (opt_field options acl) (js ''public-read''),
      up_CacheControl = or_default (opt_field options cacheControl) (js ''public, max-age=31536000''),
      up_ContentType = opt_field options contentType\<rparr>"

definition S3StorageClient_uploadFile ::
  "('p, 'ack) S3 \<Rightarrow> jsstring \<Rightarrow> jsstring \<Rightarrow> buffer \<Rightarrow> UploadOptions option \<Rightarrow> 'p world
   \<Rightarrow> (js_exn + UploadResult option) \<times> 'p world" where
  "S3StorageClient_uploadFile sdk b k body options w =
     (case upload sdk (S3_upload_params b k body options) (cloud w) of
        (Inr result, c) \<Rightarrow>
          (Inr (Some \<lparr>location = sd_Location result, bucket = sd_Bucket result,
                       key = sd_Key result\<rparr>),
           w\<lparr>cloud := c\<rparr>)
      | (Inl error, c) \<Rightarrow>
          (Inr None,
           logger LogError [(''error'', LogExn error), (''key'', LogStr k), (''bucket'', LogStr b)]
             (js ''unable to upload file to S3'') (w\<lparr>cloud := c\<rparr>)))"

definition S3StorageClient_getFile ::
  "('p, 'ack) S3 \<Rightarrow> jsstring \<Rightarrow> jsstring \<Rightarrow> 'p world \<Rightarrow> (js_exn + buffer option) \<times> 'p world" where
  "S3StorageClient_getFile sdk b k w =
     (case getObject sdk b k (cloud w) of
        (Inr (Some body), c) \<Rightarrow> (Inr (Some body), w\<lparr>cloud := c\<rparr>)
      | (Inr None, c) \<Rightarrow> (Inr None, w\<lparr>cloud := c\<rparr>)
      | (Inl error, c) \<Rightarrow> (Inr None, w\<lparr>cloud := c\<rparr>))"

definition S3StorageClient_deleteFile ::
  "('p, 'ack) S3 \<Rightarrow> jsstring \<Rightarrow> jsstring \<Rightarrow> 'p world \<Rightarrow> (js_exn + unit) \<times> 'p world" where
  "S3StorageClient_deleteFile sdk b k w =
     (case deleteObject sdk b k (cloud w) of (r, c) \<Rightarrow> (Inr (), w\<lparr>cloud := c\<rparr>))"

definition S3StorageClient_fileExists ::
  "('p, 'ack) S3 \<Rightarrow> jsstring \<Rightarrow> jsstring \<Rightarrow> 'p world \<Rightarrow> (js_exn + bool) \<times> 'p world" where
  "S3StorageClient_fileExists sdk b k w =
     (case headObject sdk b k (cloud w) of
        (Inr u, c) \<Rightarrow> (Inr True, w\<lparr>cloud := c\<rparr>)
      | (Inl error, c) \<Rightarrow> (Inr False, w\<lparr>cloud := c\<rparr>))"

definition S3StorageClient_getPublicUrl :: "'n Config \<Rightarrow> jsstring \<Rightarrow> jsstring \<Rightarrow> js_exn + jsstring" where
  "S3StorageClient_getPublicUrl config b k =
     (case s3 config of
        None \<Rightarrow> Inl (Thrown JsError (js ''S3 configuration is required''))
      | Some s3c \<Rightarrow>
          bindE (encodeURIComponent k) (\<lambda>ek.
            Inr (js ''https://s3-'' @ s3_region s3c @ js ''.amazonaws.com/'' @ b @ js ''/'' @ ek)))"

text \<open>
  The constructor checks the configuration; \<open>aws.config.update\<close> hands the credentials
  and the region to the SDK object \<open>sdk\<close>.
\<close>

definition S3StorageClient :: "'n Config \<Rightarrow> ('p, 'ack) S3 \<Rightarrow> js_exn + 'p StorageClient" where
  "S3StorageClient config sdk =
     (if aws config = None \<or> s3 config = None
      then Inl (Thrown JsError
                  (js ''AWS/S3 configuration is required when using S3 storage backend''))
      else Inr \<lparr>uploadFile = S3StorageClient_uploadFile sdk,
                getFile = S3StorageClient_getFile sdk,
                deleteFile = S3StorageClient_deleteFile sdk,
                fileExists = S3StorageClient_fileExists sdk\<rparr>)"


subsection \<open>The GCS client\<close>

text \<open>
  The boundary to the Google Cloud Storage SDK. An operation names the file by bucket and
  key: the handle \<open>this.storage.bucket(bucket).file(key)\<close> is built inside the same
  \<open>try\<close> block as the call on it, so a rejection (\<open>Inl\<close>) stands for either failing.
\<close>

record GCS_save_options =
  meta_cacheControl :: jsstring
  meta_contentType :: "jsstring option"
  public :: bool

record 'p GCS =
  save :: "jsstring \<Rightarrow> jsstring \<Rightarrow> buffer \<Rightarrow> GCS_save_options \<Rightarrow> 'p \<Rightarrow> (js_exn + unit) \<times> 'p"
  makePublic :: "jsstring \<Rightarrow> jsstring \<Rightarrow> 'p \<Rightarrow> (js_exn + unit) \<times> 'p"
  download :: "jsstring \<Rightarrow> jsstring \<Rightarrow> 'p \<Rightarrow> (js_exn + buffer) \<times> 'p"
  delete :: "jsstring \<Rightarrow> jsstring \<Rightarrow> 'p \<Rightarrow> (js_exn + unit) \<times> 'p"
  exists :: "jsstring \<Rightarrow> jsstring \<Rightarrow> 'p \<Rightarrow> (js_exn + bool) \<times> 'p"

text \<open>The options object of \<open>file.save\<close> in \<open>GCSStorageClient.uploadFile\<close>.\<close>

definition GCS_save_params :: "UploadOptions option \<Rightarrow> GCS_save_options" where
  "GCS_save_params options =
     \<lparr>meta_cacheControl = or_default (opt_field options cacheControl) (js ''public, max-age=31536000''),
      meta_contentType = opt_field options contentType,
      public = (opt_field options acl = Some (js ''public-read''))\<rparr>"

definition GCS_upload_failed :: "js_exn \<Rightarrow> jsstring \<Rightarrow> jsstring \<Rightarrow> 'p world
   \<Rightarrow> (js_exn + UploadResult option) \<times> 'p world" where
  "GCS_upload_failed error b k w =
     (Inr None,
      logger LogError [(''error'', LogExn error), (''key'', LogStr k), (''bucket'', LogStr b)]
        (js ''unable to upload file to GCS'') w)"

definition GCSStorageClient_uploadFile ::
  "'p GCS \<Rightarrow> jsstring \<Rightarrow> jsstring \<Rightarrow> buffer \<Rightarrow> UploadOptions option \<Rightarrow> 'p world
   \<Rightarrow> (js_exn + UploadResult option) \<times> 'p world" where
  "GCSStorageClient_uploadFile sdk b k body options w =
     (case save sdk b k body (GCS_save_params options) (cloud w) of
        (Inl error, c) \<Rightarrow> GCS_upload_failed error b k (w\<lparr>cloud := c\<rparr>)
      | (Inr u, c) \<Rightarrow>
          if opt_field options acl = Some (js ''public-read'') then
            (case makePublic sdk b k c of
               (Inl error, c') \<Rightarrow> GCS_upload_failed error b k (w\<lparr>cloud := c'\<rparr>)
             | (Inr u', c') \<Rightarrow>
                 (Inr (Some \<lparr>location = js ''https://storage.googleapis.com/'' @ b @ js ''/'' @ k,
                              bucket = b, key = k\<rparr>),
                  w\<lparr>cloud := c'\<rparr>))
          else
            (Inr (Some \<lparr>location = js ''https://storage.googleapis.com/'' @ b @ js ''/'' @ k,
                         bucket = b, key = k\<rparr>),
             w\<lparr>cloud := c\<rparr>))"

definition GCSStorageClient_getFile ::
  "'p GCS \<Rightarrow> jsstring \<Rightarrow> jsstring \<Rightarrow> 'p world \<Rightarrow> (js_exn + buffer option) \<times> 'p world" where
  "GCSStorageClient_getFile sdk b k w =
     (case download sdk b k (cloud w) of
        (Inr contents, c) \<Rightarrow> (Inr (Some contents), w\<lparr>cloud := c\<rparr>)
      | (Inl error, c) \<Rightarrow> (Inr None, w\<lparr>cloud := c\<rparr>))"

definition GCSStorageClient_deleteFile ::
  "'p GCS \<Rightarrow> jsstring \<Rightarrow> jsstring \<Rightarrow> 'p world \<Rightarrow> (js_exn + unit) \<times> 'p world" where
  "GCSStorageClient_deleteFile sdk b k w =
     (case delete sdk b k (cloud w) of (r, c) \<Rightarrow> (Inr (), w\<lparr>cloud := c\<rparr>))"

definition GCSStorageClient_fileExists ::
  "'p GCS \<Rightarrow> jsstring \<Rightarrow> jsstring \<Rightarrow> 'p world \<Rightarrow> (js_exn + bool) \<times> 'p world" where
  "GCSStorageClient_fileExists sdk b k w =
     (case exists sdk b k (cloud w) of
        (Inr ex, c) \<Rightarrow> (Inr ex, w\<lparr>cloud := c\<rparr>)
      | (Inl error, c) \<Rightarrow> (Inr False, w\<lparr>cloud := c\<rparr>))"

definition GCSStorageClient_getPublicUrl :: "jsstring \<Rightarrow> jsstring \<Rightarrow> js_exn + jsstring" where
  "GCSStorageClient_getPublicUrl b k =
     bindE (encodeURIComponent k) (\<lambda>ek.
       Inr (js ''https://storage.googleapis.com/'' @ b @ js ''/'' @ ek))"

definition GCSStorageClient :: "'n Config \<Rightarrow> 'p GCS \<Rightarrow> js_exn + 'p StorageClient" where
  "GCSStorageClient config sdk =
     (if gcs config = None
      then Inl (Thrown JsError
                  (js ''GCS configuration is required when using GCS storage backend''))
      else Inr \<lparr>uploadFile = GCSStorageClient_uploadFile sdk,
                getFile = GCSStorageClient_getFile sdk,
                deleteFile = GCSStorageClient_deleteFile sdk,
                fileExists = GCSStorageClient_fileExists sdk\<rparr>)"

subsection \<open>The exported client and buckets\<close>

record 'p storage_exports =
  storageClient :: "'p StorageClient"
  getPublicUrl :: "jsstring \<Rightarrow> jsstring \<Rightarrow> js_exn + jsstring"
  artifactsBucket :: jsstring
  importsBucket :: jsstring

text \<open>
  The module body: one client is constructed according to \<open>config.storageBackend\<close>;
  \<open>config.gcs!.bucket\<close> and \<open>config.s3!.bucket\<close> read a property of \<open>undefined\<close> when the
  section is missing.
\<close>

definition storage_module ::
  "'n Config \<Rightarrow> ('p, 'ack) S3 \<Rightarrow> 'p GCS \<Rightarrow> 'p world \<Rightarrow> (js_exn + 'p storage_exports) \<times> 'p world" where
  "storage_module config s3sdk gcssdk w =
     (if storageBackend config = Backend_gcs then
        (let w' = logger LogInfo [] (js ''Using Google Cloud Storage backend'') w in
         case GCSStorageClient config gcssdk of
           Inl e \<Rightarrow> (Inl e, w')
         | Inr client \<Rightarrow>
             (case gcs config of
                None \<Rightarrow> (Inl (Thrown JsTypeError
                           (js ''Cannot read properties of undefined (reading 'bucket')'')), w')
              | Some g \<Rightarrow>
                  (Inr \<lparr>storageClient = client, getPublicUrl = GCSStorageClient_getPublicUrl,
                        artifactsBucket = gcs_bucket g, importsBucket = gcs_imports_bucket g\<rparr>, w')))
      else
        (let w' = logger LogInfo [] (js ''Using AWS S3 backend'') w in
         case S3StorageClient config s3sdk of
           Inl e \<Rightarrow> (Inl e, w')
         | Inr client \<Rightarrow>
             (case s3 config of
                None \<Rightarrow> (Inl (Thrown JsTypeError
                           (js ''Cannot read properties of undefined (reading 'bucket')'')), w')
              | Some s \<Rightarrow>
                  (Inr \<lparr>storageClient = client, getPublicUrl = S3StorageClient_getPublicUrl config,
                        artifactsBucket = s3_bucket s, importsBucket = s3_imports_bucket s\<rparr>, w'))))"

section \<open>Utilities on top of the storage client\<close>

text \<open>\<open>utils/uploadFile.ts\<close>: upload into the artifacts bucket.\<close>

definition uploadFile_util ::
  "'p storage_exports \<Rightarrow> jsstring \<Rightarrow> buffer \<Rightarrow> 'p world \<Rightarrow> (js_exn + UploadResult option) \<times> 'p world" where
  "uploadFile_util m k body w =
     uploadFile (storageClient m) (artifactsBucket m) k body
       (Some \<lparr>contentType = None, cacheControl = Some (js ''public, max-age=31536000''),
              acl = Some (js ''public-read'')\<rparr>) w"

text \<open>
  \<open>utils/cacheSnackObj.ts\<close>. The descriptor type \<open>GitSnackObj\<close> is the type parameter
  \<open>'d\<close>; \<open>json5.stringify\<close>, \<open>json5.parse\<close>, \<open>Buffer.from\<close> and \<open>buffer.toString\<close> are
  library functions, given as parameters.
\<close>

record 'd json5 =
  stringify :: "'d \<Rightarrow> js_exn + jsstring"
  parse :: "jsstring \<Rightarrow> js_exn + 'd"
  Buffer_from :: "jsstring \<Rightarrow> buffer"
  toString :: "buffer \<Rightarrow> jsstring"

text \<open>
  The functions as the module has them: the two \<open>json5\<close> functions of the library, and
  Node's \<open>Buffer.from\<close> and \<open>buffer.toString\<close>.
\<close>

definition node_json5 :: "('d \<Rightarrow> js_exn + jsstring) \<Rightarrow> (jsstring \<Rightarrow> js_exn + 'd) \<Rightarrow> 'd json5" where
  "node_json5 json5_stringify json5_parse =
     \<lparr>stringify = json5_stringify, parse = json5_parse,
      Buffer_from = Buffer_from_utf8, toString = toString_utf8\<rparr>"

definition getCachedObj ::
  "'d json5 \<Rightarrow> 'p StorageClient \<Rightarrow> jsstring \<Rightarrow> jsstring \<Rightarrow> 'p world \<Rightarrow> (js_exn + 'd option) \<times> 'p world" where
  "getCachedObj json5 client imports filename w =
     (case getFile client imports filename w of
        (Inl e, w') \<Rightarrow> (Inr None, w')
      | (Inr None, w') \<Rightarrow> (Inr None, w')
      | (Inr (Some buffer), w') \<Rightarrow>
          (case parse json5 (toString json5 buffer) of
             Inl e \<Rightarrow> (Inr None, w')
           | Inr obj \<Rightarrow> (Inr (Some obj), w')))"

text \<open>The \<open>catch\<close> block of \<open>cacheObj\<close>.\<close>

definition cacheObj_failed :: "js_exn \<Rightarrow> jsstring \<Rightarrow> jsstring \<Rightarrow> 'p world \<Rightarrow> (js_exn + unit) \<times> 'p world" where
  "cacheObj_failed e filename imports w =
     (Inl (Thrown JsError (js ''CacheObj failure: '' @ message e)),
      logger LogError [(''e'', LogExn e), (''filename'', LogStr filename), (''bucket'', LogStr imports)]
        (js ''unable to upload file to storage'') w)"

definition cacheObj ::
  "'d json5 \<Rightarrow> 'p StorageClient \<Rightarrow> jsstring \<Rightarrow> 'd \<Rightarrow> jsstring \<Rightarrow> 'p world \<Rightarrow> (js_exn + unit) \<times> 'p world" where
  "cacheObj json5 client imports snackObj filename w =
     (case stringify json5 snackObj of
        Inl e \<Rightarrow> cacheObj_failed e filename imports w
      | Inr text \<Rightarrow>
          (case uploadFile client imports filename (Buffer_from json5 text)
                  (Some \<lparr>contentType = None, cacheControl = Some (js ''public, max-age=31536000''),
                         acl = Some (js ''public-read'')\<rparr>) w of
             (Inl e, w') \<Rightarrow> cacheObj_failed e filename imports w'
           | (Inr None, w') \<Rightarrow>
               cacheObj_failed (Thrown JsError (js ''Failed to upload file'')) filename imports w'
           | (Inr (Some result), w') \<Rightarrow> (Inr (), w')))"

definition removeFromCache ::
  "'p StorageClient \<Rightarrow> jsstring \<Rightarrow> jsstring \<Rightarrow> 'p world \<Rightarrow> (js_exn + unit) \<times> 'p world" where
  "removeFromCache client imports filename w =
     (case deleteFile client imports filename w of (r, w') \<Rightarrow> (Inr (), w'))"

text \<open>The redirect utility \<open>addS3Redirect\<close>; \<open>sdk\<close> is the \<open>s3\<close> object of \<open>external/aws.ts\<close>.\<close>

definition addS3Redirect ::
  "'n Config \<Rightarrow> ('p, 'ack) S3 \<Rightarrow> jsstring \<Rightarrow> jsstring \<Rightarrow> 'p world \<Rightarrow> (js_exn + 'ack option) \<times> 'p world" where
  "addS3Redirect config sdk k destination w =
     (if storageBackend config \<noteq> Backend_s3 \<or> s3 config = None then
        (Inr None,
         logger LogWarn [(''key'', LogStr k), (''destination'', LogStr destination)]
           (js ''S3 redirect not supported with current storage backend'') w)
      else
        (case putObject sdk
                \<lparr>put_Bucket = s3_bucket (the (s3 config)), put_Key = k, put_Body = [],
                 put_ACL = js ''public-read'', put_CacheControl = js ''no-cache'',
                 put_WebsiteRedirectLocation = js ''/'' @ destination\<rparr> (cloud w) of
           (Inr ack, c) \<Rightarrow> (Inr (Some ack), w\<lparr>cloud := c\<rparr>)
         | (Inl error, c) \<Rightarrow>
             (Inr None,
              logger LogError
                [(''error'', LogExn error), (''key'', LogStr k), (''destination'', LogStr destination),
                 (''bucket'', LogStr (s3_bucket (the (s3 config))))]
                (js ''unable to add s3 redirect'') (w\<lparr>cloud := c\<rparr>))))"


section \<open>Example providers and configurations\<close>

text \<open>
  Concrete inputs for the examples below: an in-memory object store and the two SDK
  objects over it, an S3 endpoint that reports the stored object under its own names, and
  SDK objects whose every call is rejected.
\<close>

record stored_object =
  obj_content :: buffer
  obj_acl :: jsstring
  obj_cacheControl :: jsstring
  obj_contentType :: "jsstring option"
  obj_redirect :: "jsstring option"

type_synonym mem_cloud = "jsstring \<times> jsstring \<rightharpoonup> stored_object"

definition no_such_key :: js_exn where
  "no_such_key = Thrown JsError (js ''The specified key does not exist.'')"

definition unavailable :: js_exn where
  "unavailable = Thrown JsError (js ''Service Unavailable'')"

definition mem_GCS :: "mem_cloud GCS" where
  "mem_GCS =
     \<lparr>save = (\<lambda>b k body opts c.
        (Inr (), c((b, k) \<mapsto> \<lparr>obj_content = body,
                                obj_acl = (if public opts then js ''public-read'' else js ''private''),
                                obj_cacheControl = meta_cacheControl opts,
                                obj_contentType = meta_contentType opts,
                                obj_redirect = None\<rparr>))),
      makePublic = (\<lambda>b k c.
        case c (b, k) of
          None \<Rightarrow> (Inl no_such_key, c)
        | Some ob \<Rightarrow> (Inr (), c((b, k) \<mapsto> ob\<lparr>obj_acl := js ''public-read''\<rparr>))),
      download = (\<lambda>b k c.
        case c (b, k) of None \<Rightarrow> (Inl no_such_key, c) | Some ob \<Rightarrow> (Inr (obj_content ob), c)),
      delete = (\<lambda>b k c.
        case c (b, k) of None \<Rightarrow> (Inl no_such_key, c) | Some ob \<Rightarrow> (Inr (), c((b, k) := None))),
      exists = (\<lambda>b k c. (Inr (c (b, k) \<noteq> None), c))\<rparr>"

definition mem_S3 :: "(mem_cloud, jsstring) S3" where
  "mem_S3 =
     \<lparr>upload = (\<lambda>req c.
        (Inr \<lparr>sd_Location = js ''https://'' @ up_Bucket req @ js ''.s3.amazonaws.com/'' @ up_Key req,
              sd_Bucket = up_Bucket req, sd_Key = up_Key req\<rparr>,
         c((up_Bucket req, up_Key req) \<mapsto>
             \<lparr>obj_content = up_Body req, obj_acl = up_ACL req,
              obj_cacheControl = up_CacheControl req, obj_contentType = up_ContentType req,
              obj_redirect = None\<rparr>))),
      getObject = (\<lambda>b k c.
        case c (b, k) of None \<Rightarrow> (Inl no_such_key, c) | Some ob \<Rightarrow> (Inr (Some (obj_content ob)), c)),
      deleteObject = (\<lambda>b k c. (Inr (), c((b, k) := None))),
      headObject = (\<lambda>b k c.
        case c (b, k) of None \<Rightarrow> (Inl no_such_key, c) | Some ob \<Rightarrow> (Inr (), c)),
      putObject = (\<lambda>req c.
        (Inr (js ''etag''),
         c((put_Bucket req, put_Key req) \<mapsto>
             \<lparr>obj_content = [], obj_acl = put_ACL req,
              obj_cacheControl = put_CacheControl req, obj_contentType = None,
              obj_redirect = Some (put_WebsiteRedirectLocation req)\<rparr>)))\<rparr>"

text \<open>An S3-compatible endpoint whose upload response names the bucket and key its own way.\<close>

definition renaming_S3 :: "(mem_cloud, jsstring) S3" where
  "renaming_S3 =
     mem_S3\<lparr>upload := (\<lambda>req c.
        case upload mem_S3 req c of
          (Inr sd, c') \<Rightarrow>
            (Inr (sd\<lparr>sd_Bucket := js ''arn:'' @ sd_Bucket sd, sd_Key := js ''/'' @ sd_Key sd\<rparr>), c')
        | (Inl e, c') \<Rightarrow> (Inl e, c'))\<rparr>"

definition down_S3 :: "(mem_cloud, jsstring) S3" where
  "down_S3 =
     \<lparr>upload = (\<lambda>req c. (Inl unavailable, c)),
      getObject = (\<lambda>b k c. (Inl unavailable, c)),
      deleteObject = (\<lambda>b k c. (Inl unavailable, c)),
      headObject = (\<lambda>b k c. (Inl unavailable, c)),
      putObject = (\<lambda>req c. (Inl unavailable, c))\<rparr>"

definition down_GCS :: "mem_cloud GCS" where
  "down_GCS =
     \<lparr>save = (\<lambda>b k body opts c. (Inl unavailable, c)),
      makePublic = (\<lambda>b k c. (Inl unavailable, c)),
      download = (\<lambda>b k c. (Inl unavailable, c)),
      delete = (\<lambda>b k c. (Inl unavailable, c)),
      exists = (\<lambda>b k c. (Inl unavailable, c))\<rparr>"

definition empty_world :: "mem_cloud world" where
  "empty_world = \<lparr>cloud = Map.empty, logs = []\<rparr>"

text \<open>A descriptor format for the examples: the descriptor is its own text, one octet per code unit.\<close>

definition text_json5 :: "jsstring json5" where
  "text_json5 =
     \<lparr>stringify = Inr,
      parse = (\<lambda>s. if s = [] then Inl (Thrown JsSyntaxError (js ''JSON5: invalid end of input''))
                    else Inr s),
      Buffer_from = map (\<lambda>c. of_nat (unat c)),
      toString = map (\<lambda>c. of_nat (unat c))\<rparr>"

text \<open>The same descriptor format with Node's conversions between text and octets.\<close>

definition node_text_json5 :: "jsstring json5" where
  "node_text_json5 =
     node_json5 Inr
       (\<lambda>s. if s = [] then Inl (Thrown JsSyntaxError (js ''JSON5: invalid end of input''))
            else Inr s)"

definition s3_example_config :: "int option Config" where
  "s3_example_config =
     \<lparr>port = Some 3012, registry = js ''https://registry.yarnpkg.com'', tmpdir = js ''/tmp/snackager'',
      url = js ''noop'', storageBackend = Backend_s3, redis_url = js ''noop'',
      aws = Some \<lparr>access_key = js ''noop'', secret_key = js ''noop''\<rparr>,
      s3 = Some \<lparr>s3_bucket = js ''artifacts'', s3_imports_bucket = js ''imports'',
                  s3_region = js ''us-west-1''\<rparr>,
      gcs = None, cloudfront_url = js ''noop'', api_url = js ''https://test.exp.host'',
      sentry_dsn = None\<rparr>"

definition gcs_example_config :: "int option Config" where
  "gcs_example_config =
     \<lparr>port = Some 3012, registry = js ''https://registry.yarnpkg.com'', tmpdir = js ''/tmp/snackager'',
      url = js ''noop'', storageBackend = Backend_gcs, redis_url = js ''noop'',
      aws = None, s3 = None,
      gcs = Some \<lparr>gcs_projectId = js ''proj'', gcs_bucket = js ''artifacts'',
                   gcs_imports_bucket = js ''imports''\<rparr>,
      cloudfront_url = js ''noop'', api_url = js ''https://test.exp.host'',
      sentry_dsn = None\<rparr>"


text \<open>The clients over these SDK objects, and a client double whose every call raises.\<close>

definition mem_GCS_client :: "mem_cloud StorageClient" where
  "mem_GCS_client =
     \<lparr>uploadFile = GCSStorageClient_uploadFile mem_GCS,
      getFile = GCSStorageClient_getFile mem_GCS,
      deleteFile = GCSStorageClient_deleteFile mem_GCS,
      fileExists = GCSStorageClient_fileExists mem_GCS\<rparr>"

definition down_S3_client :: "mem_cloud StorageClient" where
  "down_S3_client =
     \<lparr>uploadFile = S3StorageClient_uploadFile down_S3,
      getFile = S3StorageClient_getFile down_S3,
      deleteFile = S3StorageClient_deleteFile down_S3,
      fileExists = S3StorageClient_fileExists down_S3\<rparr>"

definition raising_client :: "mem_cloud StorageClient" where
  "raising_client =
     \<lparr>uploadFile = (\<lambda>b k body options w. (Inl unavailable, w)),
      getFile = (\<lambda>b k w. (Inl unavailable, w)),
      deleteFile = (\<lambda>b k w. (Inl unavailable, w)),
      fileExists = (\<lambda>b k w. (Inl unavailable, w))\<rparr>"

text \<open>Processes: a test run that names only the S3 buckets and region, and one whose project
  identifier is empty.\<close>

definition test_process :: process where
  "test_process =
     \<lparr>penv = [js ''NODE_ENV'' \<mapsto> js ''test'', js ''S3_BUCKET'' \<mapsto> js ''artifacts'',
              js ''IMPORTS_S3_BUCKET'' \<mapsto> js ''imports'', js ''S3_REGION'' \<mapsto> js ''us-west-1''],
      argv = [js ''/usr/bin/node'', js ''/app/node_modules/.bin/jest'']\<rparr>"

definition empty_project_process :: process where
  "empty_project_process =
     \<lparr>penv = [js ''NODE_ENV'' \<mapsto> js ''test'', js ''GCS_PROJECT_ID'' \<mapsto> []],
      argv = [js ''/usr/bin/node'', js ''/app/node_modules/.bin/jest'']\<rparr>"

definition example_path_join :: "jsstring \<Rightarrow> jsstring \<Rightarrow> jsstring" where
  "example_path_join a b = a @ js ''/'' @ b"

section \<open>Properties of the built-ins\<close>

lemma length_escapeCodePoint: "3 \<le> length (escapeCodePoint cp)"
  by (simp add: escapeCodePoint_def utf8Octets_def length_concat percentEscape_def)

lemma encodeURIComponent_length:
  "encodeURIComponent k = Inr r \<Longrightarrow>
     length k \<le> length r \<and> ((\<exists>c\<in>set k. \<not> uriUnescaped c) \<longrightarrow> length k < length r)"
proof (induction k arbitrary: r rule: encodeURIComponent.induct)
  case 1
  then show ?case by simp
next
  case (2 c cs)
  show ?case
  proof (cases "uriUnescaped c")
    case True
    with "2.prems" obtain r' where r': "encodeURIComponent cs = Inr r'" "r = c # r'"
      by (auto split: sum.splits)
    from "2.IH"(1) [OF True r'(1)] r'(2) True show ?thesis by auto
  next
    case unesc: False
    show ?thesis
    proof (cases "isTrailSurrogate c")
      case True
      with unesc "2.prems" show ?thesis by simp
    next
      case notrail: False
      show ?thesis
      proof (cases "isLeadSurrogate c")
        case True
        with unesc notrail "2.prems" obtain d ds r' where
          d: "cs = d # ds" "isTrailSurrogate d" "encodeURIComponent ds = Inr r'"
             "r = escapeCodePoint (surrogatePairToCodePoint c d) @ r'"
          by (auto split: sum.splits list.splits if_splits)
        from "2.IH"(2) [OF unesc notrail True d(1) d(2) d(3)]
        have "length ds \<le> length r'" by simp
        with d(1) d(4) length_escapeCodePoint [of "surrogatePairToCodePoint c d"]
        show ?thesis by simp
      next
        case False
        with unesc notrail "2.prems" obtain r' where
          r': "encodeURIComponent cs = Inr r'" "r = escapeCodePoint (unat c) @ r'"
          by (auto split: sum.splits)
        from "2.IH"(3) [OF unesc notrail False r'(1)]
        have "length cs \<le> length r'" by simp
        with r'(2) length_escapeCodePoint [of "unat c"] show ?thesis by simp
      qed
    qed
  qed
qed

lemma encodeURIComponent_unescaped:
  "\<forall>c\<in>set k. uriUnescaped c \<Longrightarrow> encodeURIComponent k = Inr k"
  by (induction k) simp_all

lemma uriUnescaped_le:
  assumes "uriUnescaped c"
  shows "c \<le> 0x7E"
proof -
  from assms consider "c \<le> 0x5A" | "c \<le> 0x7A" | "c \<le> 0x39"
    | "c \<in> {0x2D, 0x5F, 0x2E, 0x21, 0x7E, 0x2A, 0x27, 0x28, 0x29}"
    unfolding uriUnescaped_def by blast
  then show ?thesis
  proof cases
    case 1
    then show ?thesis by (rule order_trans) simp
  next
    case 2
    then show ?thesis by (rule order_trans) simp
  next
    case 3
    then show ?thesis by (rule order_trans) simp
  next
    case 4
    then show ?thesis by (elim insertE emptyE) simp_all
  qed
qed

lemma uriUnescaped_not_surrogate:
  assumes "uriUnescaped c"
  shows "\<not> isLeadSurrogate c \<and> \<not> isTrailSurrogate c"
proof -
  have "\<not> 0xD800 \<le> c"
  proof
    assume "0xD800 \<le> c"
    from this uriUnescaped_le [OF assms] have "(0xD800 :: 16 word) \<le> 0x7E" by (rule order_trans)
    then show False by simp
  qed
  moreover have "\<not> 0xDC00 \<le> c"
  proof
    assume "0xDC00 \<le> c"
    from this uriUnescaped_le [OF assms] have "(0xDC00 :: 16 word) \<le> 0x7E" by (rule order_trans)
    then show False by simp
  qed
  ultimately show ?thesis by (simp add: isLeadSurrogate_def isTrailSurrogate_def)
qed

lemma lead_not_trail:
  assumes "isLeadSurrogate c"
  shows "\<not> isTrailSurrogate c"
proof
  assume "isTrailSurrogate c"
  then have "0xDC00 \<le> c" by (simp add: isTrailSurrogate_def)
  moreover from assms have "c \<le> 0xDBFF" by (simp add: isLeadSurrogate_def)
  ultimately have "(0xDC00 :: 16 word) \<le> 0xDBFF" by (rule order_trans)
  then show False by simp
qed

lemma encodeURIComponent_Cons_cases:
  "encodeURIComponent (c # cs) =
     (if uriUnescaped c then map_sum id ((#) c) (encodeURIComponent cs)
      else if isLeadSurrogate c then
        (case cs of
           [] \<Rightarrow> Inl (Thrown JsURIError (js ''URI malformed''))
         | d # ds \<Rightarrow>
             if isTrailSurrogate d
             then map_sum id ((@) (escapeCodePoint (surrogatePairToCodePoint c d))) (encodeURIComponent ds)
             else Inl (Thrown JsURIError (js ''URI malformed'')))
      else if isTrailSurrogate c then Inl (Thrown JsURIError (js ''URI malformed''))
      else map_sum id ((@) (escapeCodePoint (unat c))) (encodeURIComponent cs))"
  using lead_not_trail [of c]
  by (simp split: sum.split list.split)

lemma map_sum_id_Inr_iff: "(\<exists>y. map_sum id f m = Inr y) \<longleftrightarrow> (\<exists>x. m = Inr x)"
  by (cases m) simp_all

lemma encodeURIComponent_defined_iff:
  "(\<exists>ek. encodeURIComponent k = Inr ek) \<longleftrightarrow> isWellFormed k"
proof (induction k rule: isWellFormed.induct)
  case 1
  show ?case by simp
next
  case (2 c cs)
  show ?case
  proof (cases "isLeadSurrogate c")
    case lead: True
    then have unesc: "\<not> uriUnescaped c"
      using uriUnescaped_not_surrogate [of c] by blast
    show ?thesis
    proof (cases cs)
      case Nil
      with lead unesc show ?thesis
        by (simp only: encodeURIComponent_Cons_cases isWellFormed.simps) simp
    next
      case (Cons d ds)
      from "2.IH"(1) [OF lead Cons] lead unesc Cons show ?thesis
        by (simp only: encodeURIComponent_Cons_cases isWellFormed.simps)
           (simp add: map_sum_id_Inr_iff)
    qed
  next
    case nolead: False
    from "2.IH"(2) [OF nolead] nolead uriUnescaped_not_surrogate [of c] show ?thesis
      by (simp only: encodeURIComponent_Cons_cases isWellFormed.simps)
         (auto simp: map_sum_id_Inr_iff)
  qed
qed

lemma encodeURIComponent_malformed:
  assumes "\<not> isWellFormed k"
  shows "encodeURIComponent k = Inl (Thrown JsURIError (js ''URI malformed''))"
  using assms
proof (induction k rule: isWellFormed.induct)
  case 1
  then show ?case by simp
next
  case (2 c cs)
  show ?case
  proof (cases "isLeadSurrogate c")
    case lead: True
    then have unesc: "\<not> uriUnescaped c"
      using uriUnescaped_not_surrogate [of c] by blast
    show ?thesis
    proof (cases cs)
      case Nil
      with lead unesc show ?thesis
        by (simp only: encodeURIComponent_Cons_cases) simp
    next
      case (Cons d ds)
      from "2.IH"(1) [OF lead Cons] "2.prems" lead unesc Cons show ?thesis
        by (simp only: encodeURIComponent_Cons_cases isWellFormed.simps) auto
    qed
  next
    case nolead: False
    from "2.IH"(2) [OF nolead] "2.prems" nolead uriUnescaped_not_surrogate [of c] show ?thesis
      by (simp only: encodeURIComponent_Cons_cases isWellFormed.simps) auto
  qed
qed

lemma unat_of_nat_16: "m < 65536 \<Longrightarrow> unat (of_nat m :: 16 word) = m"
  by (simp add: unat_of_nat)

lemma hexDigit_unescaped:
  assumes "n < 16"
  shows "uriUnescaped (hexDigit n)"
proof (cases "n < 10")
  case True
  then have "unat (hexDigit n) = 0x30 + n"
    unfolding hexDigit_def using unat_of_nat_16 [of "0x30 + n"] by (simp del: of_nat_add)
  with True have "0x30 \<le> hexDigit n \<and> hexDigit n \<le> 0x39"
    by (simp add: word_le_nat_alt)
  then show ?thesis unfolding uriUnescaped_def by blast
next
  case False
  with assms have "unat (hexDigit n) = 0x41 + (n - 10)"
    unfolding hexDigit_def using unat_of_nat_16 [of "0x41 + (n - 10)"] by (simp del: of_nat_add)
  with False assms have "0x41 \<le> hexDigit n \<and> hexDigit n \<le> 0x5A"
    by (simp add: word_le_nat_alt)
  then show ?thesis unfolding uriUnescaped_def by blast
qed

lemma percentEscape_alphabet:
  assumes "octet < 256"
  shows "\<forall>x\<in>set (percentEscape octet). uriUnescaped x \<or> x = 0x25"
proof -
  from assms have "octet div 16 < 16" "octet mod 16 < 16" by simp_all
  then show ?thesis
    by (simp add: percentEscape_def hexDigit_unescaped)
qed

lemma utf8Octets_bound:
  assumes "cp < 0x110000"
  shows "\<forall>octet\<in>set (utf8Octets cp). octet < 256"
proof -
  have a: "cp mod 64 < 64" "(cp div 64) mod 64 < 64" "(cp div 4096) mod 64 < 64" by simp_all
  from assms have b: "cp div 262144 < 5" by simp
  have c: "cp < 0x800 \<Longrightarrow> cp div 64 < 32" "cp < 0x10000 \<Longrightarrow> cp div 4096 < 16" by simp_all
  from a b c show ?thesis
    by (auto simp: utf8Octets_def simp del: mod_less_divisor)
qed

lemma escapeCodePoint_alphabet:
  assumes "cp < 0x110000"
  shows "\<forall>x\<in>set (escapeCodePoint cp). uriUnescaped x \<or> x = 0x25"
  using utf8Octets_bound [OF assms] percentEscape_alphabet
  by (auto simp: escapeCodePoint_def)

lemma surrogatePairToCodePoint_bound:
  assumes "isLeadSurrogate c" "isTrailSurrogate d"
  shows "surrogatePairToCodePoint c d < 0x110000"
proof -
  from assms(1) have "unat c \<le> 0xDBFF"
    by (simp add: isLeadSurrogate_def word_le_nat_alt)
  moreover from assms(2) have "unat d \<le> 0xDFFF"
    by (simp add: isTrailSurrogate_def word_le_nat_alt)
  ultimately show ?thesis
    by (simp add: surrogatePairToCodePoint_def)
qed

lemma code_unit_bound: "unat (c :: 16 word) < 0x110000"
proof -
  have "unat c < 2 ^ LENGTH(16)" by (rule unsigned_less)
  then show ?thesis by simp
qed

lemma set_map_sum_Cons:
  "map_sum id ((#) c) m = Inr r \<Longrightarrow> \<exists>r'. m = Inr r' \<and> r = c # r'"
  by (cases m) auto

lemma set_map_sum_append:
  "map_sum id ((@) p) m = Inr r \<Longrightarrow> \<exists>r'. m = Inr r' \<and> r = p @ r'"
  by (cases m) auto

lemma encodeURIComponent_alphabet:
  "encodeURIComponent k = Inr ek \<Longrightarrow> \<forall>x\<in>set ek. uriUnescaped x \<or> x = 0x25"
proof (induction k arbitrary: ek rule: isWellFormed.induct)
  case 1
  then show ?case by simp
next
  case (2 c cs)
  note enc = "2.prems" [unfolded encodeURIComponent_Cons_cases]
  show ?case
  proof (cases "isLeadSurrogate c")
    case lead: True
    then have unesc: "\<not> uriUnescaped c"
      using uriUnescaped_not_surrogate [of c] by blast
    from enc lead unesc obtain d ds where cs: "cs = d # ds"
      by (cases cs) simp_all
    from enc lead unesc cs have trail: "isTrailSurrogate d"
      by (simp split: if_splits)
    from enc lead unesc cs trail obtain r' where
      r': "encodeURIComponent ds = Inr r'"
          "ek = escapeCodePoint (surrogatePairToCodePoint c d) @ r'"
      using set_map_sum_append by fastforce
    from "2.IH"(1) [OF lead cs r'(1)]
         escapeCodePoint_alphabet [OF surrogatePairToCodePoint_bound [OF lead trail]] r'(2)
    show ?thesis by auto
  next
    case nolead: False
    show ?thesis
    proof (cases "uriUnescaped c")
      case True
      with enc obtain r' where r': "encodeURIComponent cs = Inr r'" "ek = c # r'"
        using set_map_sum_Cons by fastforce
      from "2.IH"(2) [OF nolead r'(1)] True r'(2) show ?thesis by auto
    next
      case False
      with enc nolead obtain r' where
        r': "encodeURIComponent cs = Inr r'" "ek = escapeCodePoint (unat c) @ r'"
        using set_map_sum_append by (fastforce split: if_splits)
      from "2.IH"(2) [OF nolead r'(1)] escapeCodePoint_alphabet [OF code_unit_bound [of c]] r'(2)
      show ?thesis by auto
    qed
  qed
qed

lemma encodeURIComponent_example: "encodeURIComponent (js ''a b.js'') = Inr (js ''a%20b.js'')"
  by code_simp

lemma bindE_Inr [simp]: "bindE (Inr x) f = f x"
  by (simp add: bindE_def)

lemma bindE_Inl [simp]: "bindE (Inl e) f = Inl e"
  by (simp add: bindE_def)

lemma js_append: "js (s @ t) = js s @ js t"
  by (simp add: js_def)

subsection \<open>UTF-8 written by Buffer.from is read back by buffer.toString\<close>

lemma unat_of_nat_8: "m < 256 \<Longrightarrow> unat (of_nat m :: 8 word) = m"
  by (simp add: unat_of_nat)

lemma utf8_decode_Cons_of_nat:
  "m < 256 \<Longrightarrow> utf8_decode st (of_nat m # bs) =
     (case decoder_step st m of (out, st') \<Rightarrow> out @ utf8_decode st' bs)"
  by (simp add: unat_of_nat_8 del: of_nat_add)

lemma add_mult_mod_less:
  fixes a :: nat
  assumes "a < m"
  shows "(q * m + a) mod m = a"
  using assms by simp

lemma lead_mod:
  fixes a :: nat
  shows "a < 32 \<Longrightarrow> (192 + a) mod 32 = a"
    and "a < 16 \<Longrightarrow> (224 + a) mod 16 = a"
    and "a < 8 \<Longrightarrow> (240 + a) mod 8 = a"
    and "a < 64 \<Longrightarrow> (128 + a) mod 64 = a"
  using add_mult_mod_less [of a 32 6] add_mult_mod_less [of a 16 14]
    add_mult_mod_less [of a 8 30] add_mult_mod_less [of a 64 2]
  by simp_all

lemma decode_continuation_last:
  assumes "c < 64"
  shows "decoder_step (x, 1, 0x80, 0xBF) (0x80 + c) = (utf16Units (x * 64 + c), decoder_idle)"
  using assms lead_mod(4) [OF assms] by simp

lemma decode_continuation:
  assumes "c < 64" "lo \<le> 0x80 + c" "0x80 + c \<le> hi" "1 < n"
  shows "decoder_step (x, n, lo, hi) (0x80 + c) = ([], (x * 64 + c, n - 1, 0x80, 0xBF))"
  using assms lead_mod(4) [OF assms(1)] by simp

lemma decode_one:
  assumes "cp < 0x80"
  shows "utf8_decode decoder_idle (utf8Bytes cp @ rest) = utf16Units cp @ utf8_decode decoder_idle rest"
proof -
  from assms have b: "utf8Bytes cp = [of_nat cp]" by (simp add: utf8Bytes_def utf8Octets_def)
  from assms have lt: "cp < 256" by simp
  from assms have s1: "decoder_step decoder_idle cp = (utf16Units cp, decoder_idle)"
    by (simp add: decoder_idle_def decoder_start_def utf16Units_def)
  show ?thesis
    unfolding b
    by (simp only: append_Cons append_Nil utf8_decode_Cons_of_nat [OF lt] s1 prod.case)
qed

lemma decode_two:
  assumes "0x80 \<le> cp" "cp < 0x800"
  shows "utf8_decode decoder_idle (utf8Bytes cp @ rest) = utf16Units cp @ utf8_decode decoder_idle rest"
proof -
  define a where "a = cp div 64"
  define c where "c = cp mod 64"
  have cp: "cp = a * 64 + c" by (simp add: a_def c_def)
  have c: "c < 64" by (simp add: c_def)
  from assms cp c have a: "2 \<le> a" "a < 32" by linarith+
  from assms have b: "utf8Bytes cp = [of_nat (0xC0 + a), of_nat (0x80 + c)]"
    by (simp add: utf8Bytes_def utf8Octets_def a_def c_def del: of_nat_add)
  from a c have lt: "0xC0 + a < 256" "0x80 + c < 256" by linarith+
  have s1: "decoder_step decoder_idle (0xC0 + a) = ([], (a, 1, 0x80, 0xBF))"
    using a lead_mod(1) [OF a(2)] by (simp add: decoder_idle_def decoder_start_def)
  note s2 = decode_continuation_last [OF c, of a, folded cp]
  show ?thesis
    unfolding b
    by (simp only: append_Cons append_Nil utf8_decode_Cons_of_nat [OF lt(1)]
          utf8_decode_Cons_of_nat [OF lt(2)] s1 s2 prod.case)
qed


lemma decode_three:
  assumes "0x800 \<le> cp" "cp < 0x10000" "\<not> (0xD800 \<le> cp \<and> cp \<le> 0xDFFF)"
  shows "utf8_decode decoder_idle (utf8Bytes cp @ rest) = utf16Units cp @ utf8_decode decoder_idle rest"
proof -
  define a where "a = cp div 4096"
  define b where "b = (cp div 64) mod 64"
  define c where "c = cp mod 64"
  have d: "cp div 4096 = cp div 64 div 64" using div_mult2_eq [of cp 64 64] by simp
  have q: "cp div 64 = a * 64 + b" by (simp add: a_def b_def d)
  have "cp = cp div 64 * 64 + c" by (simp add: c_def)
  with q have cp: "cp = (a * 64 + b) * 64 + c" by simp
  then have cp': "cp = a * 4096 + b * 64 + c" by simp
  have bc: "b < 64" "c < 64" by (simp_all add: b_def c_def)
  from assms cp' bc have a: "a < 16" by linarith
  from assms cp' bc have lo: "a = 0 \<Longrightarrow> 32 \<le> b" by linarith
  from assms cp' bc have hi: "a = 13 \<Longrightarrow> b < 32" by linarith
  from assms have bytes: "utf8Bytes cp = [of_nat (0xE0 + a), of_nat (0x80 + b), of_nat (0x80 + c)]"
    by (simp add: utf8Bytes_def utf8Octets_def a_def b_def c_def del: of_nat_add)
  from a bc have lt: "0xE0 + a < 256" "0x80 + b < 256" "0x80 + c < 256" by linarith+
  let ?lo = "if 0xE0 + a = 0xE0 then 0xA0 else 0x80 :: nat"
  let ?hi = "if 0xE0 + a = 0xED then 0x9F else 0xBF :: nat"
  have s1: "decoder_step decoder_idle (0xE0 + a) = ([], (a, 2, ?lo, ?hi))"
    using a lead_mod(2) [OF a] by (simp add: decoder_idle_def decoder_start_def)
  from lo hi bc have r: "?lo \<le> 0x80 + b" "0x80 + b \<le> ?hi" by auto
  have s2: "decoder_step (a, 2, ?lo, ?hi) (0x80 + b) = ([], (a * 64 + b, 1, 0x80, 0xBF))"
    using decode_continuation [OF bc(1) r, of 2 a] by simp
  note s3 = decode_continuation_last [OF bc(2), of "a * 64 + b", folded cp]
  show ?thesis
    unfolding bytes
    by (simp only: append_Cons append_Nil utf8_decode_Cons_of_nat [OF lt(1)]
          utf8_decode_Cons_of_nat [OF lt(2)] utf8_decode_Cons_of_nat [OF lt(3)]
          s1 s2 s3 prod.case)
qed

lemma decode_four:
  assumes "0x10000 \<le> cp" "cp < 0x110000"
  shows "utf8_decode decoder_idle (utf8Bytes cp @ rest) = utf16Units cp @ utf8_decode decoder_idle rest"
proof -
  define a where "a = cp div 262144"
  define b where "b = (cp div 4096) mod 64"
  define c where "c = (cp div 64) mod 64"
  define e where "e = cp mod 64"
  have d1: "cp div 4096 = cp div 64 div 64" using div_mult2_eq [of cp 64 64] by simp
  have d2: "cp div 262144 = cp div 4096 div 64" using div_mult2_eq [of cp 4096 64] by simp
  have q2: "cp div 4096 = a * 64 + b" by (simp add: a_def b_def d2)
  have q1: "cp div 64 = cp div 4096 * 64 + c" by (simp add: c_def d1)
  have "cp = cp div 64 * 64 + e" by (simp add: e_def)
  with q1 q2 have cp: "cp = ((a * 64 + b) * 64 + c) * 64 + e" by simp
  then have cp': "cp = a * 262144 + b * 4096 + c * 64 + e" by simp
  have bce: "b < 64" "c < 64" "e < 64" by (simp_all add: b_def c_def e_def)
  from assms cp' bce have a: "a < 5" by linarith
  from assms cp' bce have lo: "a = 0 \<Longrightarrow> 16 \<le> b" by linarith
  from assms cp' bce have hi: "a = 4 \<Longrightarrow> b < 16" by linarith
  from assms have bytes: "utf8Bytes cp =
      [of_nat (0xF0 + a), of_nat (0x80 + b), of_nat (0x80 + c), of_nat (0x80 + e)]"
    by (simp add: utf8Bytes_def utf8Octets_def a_def b_def c_def e_def del: of_nat_add)
  from a bce have lt: "0xF0 + a < 256" "0x80 + b < 256" "0x80 + c < 256" "0x80 + e < 256"
    by linarith+
  let ?lo = "if 0xF0 + a = 0xF0 then 0x90 else 0x80 :: nat"
  let ?hi = "if 0xF0 + a = 0xF4 then 0x8F else 0xBF :: nat"
  from a have a8: "a < 8" by simp
  have s1: "decoder_step decoder_idle (0xF0 + a) = ([], (a, 3, ?lo, ?hi))"
    using a lead_mod(3) [OF a8] by (simp add: decoder_idle_def decoder_start_def)
  from lo hi bce have r: "?lo \<le> 0x80 + b" "0x80 + b \<le> ?hi" by auto
  have s2: "decoder_step (a, 3, ?lo, ?hi) (0x80 + b) = ([], (a * 64 + b, 2, 0x80, 0xBF))"
    using decode_continuation [OF bce(1) r, of 3 a] by simp
  have s3: "decoder_step (a * 64 + b, 2, 0x80, 0xBF) (0x80 + c) =
              ([], ((a * 64 + b) * 64 + c, 1, 0x80, 0xBF))"
    using decode_continuation [OF bce(2), of "0x80" "0xBF" 2 "a * 64 + b"] bce(2) by simp
  note s4 = decode_continuation_last [OF bce(3), of "(a * 64 + b) * 64 + c", folded cp]
  show ?thesis
    unfolding bytes
    by (simp only: append_Cons append_Nil utf8_decode_Cons_of_nat [OF lt(1)]
          utf8_decode_Cons_of_nat [OF lt(2)] utf8_decode_Cons_of_nat [OF lt(3)]
          utf8_decode_Cons_of_nat [OF lt(4)] s1 s2 s3 s4 prod.case)
qed

lemma decode_scalar:
  assumes "cp < 0x110000" and "\<not> (0xD800 \<le> cp \<and> cp \<le> 0xDFFF)"
  shows "utf8_decode decoder_idle (utf8Bytes cp @ rest) = utf16Units cp @ utf8_decode decoder_idle rest"
proof -
  consider "cp < 0x80" | "0x80 \<le> cp" "cp < 0x800" | "0x800 \<le> cp" "cp < 0x10000"
    | "0x10000 \<le> cp"
    by linarith
  then show ?thesis
  proof cases
    case 1
    then show ?thesis by (rule decode_one)
  next
    case 2
    then show ?thesis by (rule decode_two)
  next
    case 3
    from 3 assms(2) show ?thesis by (rule decode_three)
  next
    case 4
    from 4 assms(1) show ?thesis by (rule decode_four)
  qed
qed


lemma surrogate_unat:
  "isLeadSurrogate c \<longleftrightarrow> 0xD800 \<le> unat c \<and> unat c \<le> 0xDBFF"
  "isTrailSurrogate c \<longleftrightarrow> 0xDC00 \<le> unat c \<and> unat c \<le> 0xDFFF"
  by (simp_all add: isLeadSurrogate_def isTrailSurrogate_def word_le_nat_alt)

lemma utf16Units_code_unit: "utf16Units (unat (c :: 16 word)) = [c]"
proof -
  have "unat c < 2 ^ LENGTH(16)" by (rule unsigned_less)
  then show ?thesis by (simp add: utf16Units_def)
qed

lemma decode_code_unit:
  assumes "\<not> isLeadSurrogate c" "\<not> isTrailSurrogate c"
  shows "utf8_decode decoder_idle (utf8Bytes (unat c) @ rest) = c # utf8_decode decoder_idle rest"
proof -
  from assms have "\<not> (0xD800 \<le> unat c \<and> unat c \<le> 0xDFFF)"
    unfolding surrogate_unat by linarith
  from decode_scalar [OF code_unit_bound this] show ?thesis
    by (simp add: utf16Units_code_unit)
qed

lemma utf16Units_surrogate_pair:
  assumes "isLeadSurrogate c" "isTrailSurrogate d"
  shows "utf16Units (surrogatePairToCodePoint c d) = [c, d]"
proof -
  define x where "x = unat c - 0xD800"
  define y where "y = unat d - 0xDC00"
  from assms have c: "unat c = 0xD800 + x" and d: "unat d = 0xDC00 + y" and y: "y < 1024"
    unfolding surrogate_unat x_def y_def by linarith+
  have cp: "surrogatePairToCodePoint c d = 0x10000 + (x * 1024 + y)"
    by (simp add: surrogatePairToCodePoint_def x_def y_def)
  from y have "(x * 1024 + y) div 1024 = x" "(x * 1024 + y) mod 1024 = y" by simp_all
  then have "utf16Units (surrogatePairToCodePoint c d) = [of_nat (unat c), of_nat (unat d)]"
    unfolding cp c d by (simp add: utf16Units_def del: of_nat_add)
  then show ?thesis by simp
qed

lemma decode_surrogate_pair:
  assumes "isLeadSurrogate c" "isTrailSurrogate d"
  shows "utf8_decode decoder_idle (utf8Bytes (surrogatePairToCodePoint c d) @ rest) =
           c # d # utf8_decode decoder_idle rest"
proof -
  from assms have "0x10000 \<le> surrogatePairToCodePoint c d"
    by (simp add: surrogatePairToCodePoint_def)
  from decode_four [OF this surrogatePairToCodePoint_bound [OF assms]] show ?thesis
    by (simp add: utf16Units_surrogate_pair [OF assms])
qed

lemma Buffer_round_trip:
  "isWellFormed s \<Longrightarrow> toString_utf8 (Buffer_from_utf8 s) = s"
  unfolding toString_utf8_def
proof (induction s rule: isWellFormed.induct)
  case 1
  show ?case by (simp add: decoder_idle_def)
next
  case (2 c cs)
  show ?case
  proof (cases "isLeadSurrogate c")
    case lead: True
    with "2.prems" obtain d ds where cs: "cs = d # ds" and trail: "isTrailSurrogate d"
      and wf: "isWellFormed ds"
      by (cases cs) simp_all
    from "2.IH"(1) [OF lead cs wf] lead cs trail decode_surrogate_pair [OF lead trail]
    show ?thesis by simp
  next
    case nolead: False
    with "2.prems" have notrail: "\<not> isTrailSurrogate c" and wf: "isWellFormed cs" by simp_all
    from "2.IH"(2) [OF nolead wf] nolead notrail decode_code_unit [OF nolead notrail]
    show ?thesis by simp
  qed
qed

section \<open>The public URL and the upload location\<close>

text \<open>
  C5, as amended: for every bucket and every key without an unpaired surrogate, the key has
  a percent-encoding \<open>ek\<close> (written with unreserved characters and \<open>%\<close> only), the GCS
  client's public URL is
  \<open>https://storage.googleapis.com/<bucket>/<ek>\<close> and the S3 client's is
  \<open>https://s3-<region>.amazonaws.com/<bucket>/<ek>\<close>; for a key with an unpaired surrogate
  both raise \<open>URIError\<close>. For region \<open>us-west-1\<close>, bucket \<open>b\<close> and key \<open>a b.js\<close> the URLs are
  \<open>https://s3-us-west-1.amazonaws.com/b/a%20b.js\<close> and
  \<open>https://storage.googleapis.com/b/a%20b.js\<close>.
\<close>

theorem getPublicUrl_percent_encoded:
  "(isWellFormed k \<longrightarrow>
      (\<exists>ek. encodeURIComponent k = Inr ek
         \<and> (\<forall>x\<in>set ek. uriUnescaped x \<or> x = 0x25)
         \<and> GCSStorageClient_getPublicUrl b k =
             Inr (js ''https://storage.googleapis.com/'' @ b @ js ''/'' @ ek)
         \<and> (s3 config = Some s3c \<longrightarrow>
              S3StorageClient_getPublicUrl config b k =
                Inr (js ''https://s3-'' @ s3_region s3c @ js ''.amazonaws.com/'' @ b @ js ''/'' @ ek))))
   \<and> (\<not> isWellFormed k \<longrightarrow>
        GCSStorageClient_getPublicUrl b k = Inl (Thrown JsURIError (js ''URI malformed''))
        \<and> (s3 config = Some s3c \<longrightarrow>
             S3StorageClient_getPublicUrl config b k = Inl (Thrown JsURIError (js ''URI malformed''))))
   \<and> (s3 config = Some s3c \<and> s3_region s3c = js ''us-west-1'' \<longrightarrow>
      S3StorageClient_getPublicUrl config (js ''b'') (js ''a b.js'') =
        Inr (js ''https://s3-us-west-1.amazonaws.com/b/a%20b.js''))
   \<and> GCSStorageClient_getPublicUrl (js ''b'') (js ''a b.js'') =
        Inr (js ''https://storage.googleapis.com/b/a%20b.js'')"
proof -
  have s3_url: "S3StorageClient_getPublicUrl config b' k' =
      Inr (js ''https://s3-'' @ s3_region s3c @ js ''.amazonaws.com/'' @ b' @ js ''/'' @ ek')"
    if "s3 config = Some s3c" "encodeURIComponent k' = Inr ek'" for b' k' ek'
    using that by (simp add: S3StorageClient_getPublicUrl_def)
  have gcs_url: "GCSStorageClient_getPublicUrl b' k' =
      Inr (js ''https://storage.googleapis.com/'' @ b' @ js ''/'' @ ek')"
    if "encodeURIComponent k' = Inr ek'" for b' k' ek'
    using that by (simp add: GCSStorageClient_getPublicUrl_def)
  have wf: "\<exists>ek. encodeURIComponent k = Inr ek
         \<and> (\<forall>x\<in>set ek. uriUnescaped x \<or> x = 0x25)
         \<and> GCSStorageClient_getPublicUrl b k =
             Inr (js ''https://storage.googleapis.com/'' @ b @ js ''/'' @ ek)
         \<and> (s3 config = Some s3c \<longrightarrow>
              S3StorageClient_getPublicUrl config b k =
                Inr (js ''https://s3-'' @ s3_region s3c @ js ''.amazonaws.com/'' @ b @ js ''/'' @ ek))"
    if "isWellFormed k"
  proof -
    from that obtain ek where ek: "encodeURIComponent k = Inr ek"
      using encodeURIComponent_defined_iff [of k] by blast
    from ek encodeURIComponent_alphabet [OF ek] gcs_url [OF ek] s3_url [OF _ ek]
    show ?thesis by blast
  qed
  have mal: "GCSStorageClient_getPublicUrl b k = Inl (Thrown JsURIError (js ''URI malformed''))
        \<and> (s3 config = Some s3c \<longrightarrow>
             S3StorageClient_getPublicUrl config b k = Inl (Thrown JsURIError (js ''URI malformed'')))"
    if "\<not> isWellFormed k"
    using encodeURIComponent_malformed [OF that]
    by (simp add: GCSStorageClient_getPublicUrl_def S3StorageClient_getPublicUrl_def)
  have s3_ex: "S3StorageClient_getPublicUrl config (js ''b'') (js ''a b.js'') =
        Inr (js ''https://s3-us-west-1.amazonaws.com/b/a%20b.js'')"
    if "s3 config = Some s3c" "s3_region s3c = js ''us-west-1''"
    using s3_url [OF that(1) encodeURIComponent_example] that(2) by (simp add: js_def)
  have gcs_ex: "GCSStorageClient_getPublicUrl (js ''b'') (js ''a b.js'') =
        Inr (js ''https://storage.googleapis.com/b/a%20b.js'')"
    using gcs_url [OF encodeURIComponent_example] by (simp add: js_def)
  from wf mal s3_ex gcs_ex show ?thesis by blast
qed

theorem getPublicUrl_percent_encoded_witness:
  "isWellFormed (js ''a/b c'')
   \<and> encodeURIComponent (js ''a/b c'') = Inr (js ''a%2Fb%20c'')
   \<and> S3StorageClient_getPublicUrl s3_example_config (js ''b'') (js ''a/b c'') =
        Inr (js ''https://s3-us-west-1.amazonaws.com/b/a%2Fb%20c'')
   \<and> GCSStorageClient_getPublicUrl (js ''b'') (js ''a/b c'') =
        Inr (js ''https://storage.googleapis.com/b/a%2Fb%20c'')
   \<and> S3StorageClient_getPublicUrl s3_example_config (js ''b'') (js ''a b.js'') =
        Inr (js ''https://s3-us-west-1.amazonaws.com/b/a%20b.js'')
   \<and> \<not> isWellFormed [0x61, 0xDC00]
   \<and> S3StorageClient_getPublicUrl s3_example_config (js ''b'') [0x61, 0xDC00] =
        Inl (Thrown JsURIError (js ''URI malformed''))"
proof -
  let ?s3c = "\<lparr>s3_bucket = js ''artifacts'', s3_imports_bucket = js ''imports'',
              s3_region = js ''us-west-1''\<rparr>"
  have c: "s3 s3_example_config = Some ?s3c" "s3_region ?s3c = js ''us-west-1''"
    by (simp_all add: s3_example_config_def)
  have w: "isWellFormed (js ''a/b c'')" by code_simp
  have e: "encodeURIComponent (js ''a/b c'') = Inr (js ''a%2Fb%20c'')" by code_simp
  have m: "\<not> isWellFormed [0x61, 0xDC00]" by code_simp
  note t = getPublicUrl_percent_encoded [of "js ''a/b c''" "js ''b''" s3_example_config ?s3c]
  note t' = getPublicUrl_percent_encoded [of "[0x61, 0xDC00]" "js ''b''" s3_example_config ?s3c]
  from t w e c have 1: "S3StorageClient_getPublicUrl s3_example_config (js ''b'') (js ''a/b c'') =
        Inr (js ''https://s3-us-west-1.amazonaws.com/b/a%2Fb%20c'')"
    and 2: "GCSStorageClient_getPublicUrl (js ''b'') (js ''a/b c'') =
        Inr (js ''https://storage.googleapis.com/b/a%2Fb%20c'')"
    by (auto simp: js_def)
  from t c have 3: "S3StorageClient_getPublicUrl s3_example_config (js ''b'') (js ''a b.js'') =
        Inr (js ''https://s3-us-west-1.amazonaws.com/b/a%20b.js'')"
    by blast
  from t' m c have 4: "S3StorageClient_getPublicUrl s3_example_config (js ''b'') [0x61, 0xDC00] =
        Inl (Thrown JsURIError (js ''URI malformed''))"
    by blast
  from w e 1 2 3 m 4 show ?thesis by blast
qed

text \<open>
  The claim C5 as stated fails for a key that is an unpaired surrogate: neither client
  returns a URL.
\<close>

theorem getPublicUrl_counterexample:
  "GCSStorageClient_getPublicUrl (js ''b'') [0xD800] = Inl (Thrown JsURIError (js ''URI malformed''))
   \<and> S3StorageClient_getPublicUrl s3_example_config (js ''b'') [0xD800] =
       Inl (Thrown JsURIError (js ''URI malformed''))"
proof -
  have "encodeURIComponent [0xD800] = Inl (Thrown JsURIError (js ''URI malformed''))"
    by code_simp
  then show ?thesis
    by (simp add: GCSStorageClient_getPublicUrl_def S3StorageClient_getPublicUrl_def
          s3_example_config_def)
qed

text \<open>
  C9: a successful GCS upload returns the location
  \<open>https://storage.googleapis.com/<bucket>/<key>\<close> with the key verbatim; when the key has a
  code unit that \<open>encodeURIComponent\<close> escapes (a space, for one), \<open>getPublicUrl\<close> for the
  same bucket and key does not return that location.
\<close>

theorem gcs_location_verbatim:
  "fst (GCSStorageClient_uploadFile sdk b k body options w) = Inr (Some r) \<Longrightarrow>
     location r = js ''https://storage.googleapis.com/'' @ b @ js ''/'' @ k
     \<and> ((\<exists>c\<in>set k. \<not> uriUnescaped c) \<longrightarrow> GCSStorageClient_getPublicUrl b k \<noteq> Inr (location r))
     \<and> (0x20 \<in> set k \<longrightarrow> GCSStorageClient_getPublicUrl b k \<noteq> Inr (location r))"
proof -
  assume up: "fst (GCSStorageClient_uploadFile sdk b k body options w) = Inr (Some r)"
  then have loc: "location r = js ''https://storage.googleapis.com/'' @ b @ js ''/'' @ k"
    by (auto simp: GCSStorageClient_uploadFile_def GCS_upload_failed_def
             split: prod.splits sum.splits if_splits)
  have differs: "GCSStorageClient_getPublicUrl b k \<noteq> Inr (location r)"
    if "\<exists>c\<in>set k. \<not> uriUnescaped c"
  proof (cases "encodeURIComponent k")
    case (Inl e)
    then show ?thesis by (simp add: GCSStorageClient_getPublicUrl_def)
  next
    case (Inr ek)
    with that encodeURIComponent_length [of k ek] have "ek \<noteq> k" by auto
    with Inr loc show ?thesis by (simp add: GCSStorageClient_getPublicUrl_def)
  qed
  have space: "\<not> uriUnescaped 0x20" by (simp add: uriUnescaped_def)
  from loc differs space show ?thesis by blast
qed

theorem gcs_location_verbatim_witness:
  "fst (GCSStorageClient_uploadFile mem_GCS (js ''b'') (js ''a b.js'') [1, 2] None empty_world) =
     Inr (Some \<lparr>location = js ''https://storage.googleapis.com/b/a b.js'', bucket = js ''b'',
                 key = js ''a b.js''\<rparr>)
   \<and> 0x20 \<in> set (js ''a b.js'')
   \<and> GCSStorageClient_getPublicUrl (js ''b'') (js ''a b.js'') \<noteq>
       Inr (js ''https://storage.googleapis.com/b/a b.js'')"
proof -
  have up: "fst (GCSStorageClient_uploadFile mem_GCS (js ''b'') (js ''a b.js'') [1, 2] None empty_world) =
     Inr (Some \<lparr>location = js ''https://storage.googleapis.com/b/a b.js'', bucket = js ''b'',
                 key = js ''a b.js''\<rparr>)"
    by (simp add: GCSStorageClient_uploadFile_def mem_GCS_def empty_world_def opt_field_def js_def)
  have sp: "0x20 \<in> set (js ''a b.js'')" by (simp add: js_def)
  from gcs_location_verbatim [OF up] up sp show ?thesis by (simp add: js_def)
qed

section \<open>Upload requests\<close>




text \<open>
  C3, as amended: a successful GCS upload returns the caller's bucket and key; a successful
  S3 upload returns the \<open>Bucket\<close>, \<open>Key\<close> and \<open>Location\<close> of the SDK's response to the request
  that carries the caller's bucket and key, so they are the caller's when the response
  repeats them.
\<close>

theorem uploadFile_result_bucket_key:
  "(fst (GCSStorageClient_uploadFile gsdk b k body options w) = Inr (Some r) \<longrightarrow>
      bucket r = b \<and> key r = k)
   \<and> (fst (S3StorageClient_uploadFile ssdk b k body options w) = Inr (Some r') \<longrightarrow>
      (\<exists>sd. fst (upload ssdk (S3_upload_params b k body options) (cloud w)) = Inr sd
            \<and> bucket r' = sd_Bucket sd \<and> key r' = sd_Key sd \<and> location r' = sd_Location sd
            \<and> (sd_Bucket sd = b \<and> sd_Key sd = k \<longrightarrow> bucket r' = b \<and> key r' = k))
      \<and> up_Bucket (S3_upload_params b k body options) = b
      \<and> up_Key (S3_upload_params b k body options) = k)"
proof -
  have g: "bucket r = b \<and> key r = k"
    if "fst (GCSStorageClient_uploadFile gsdk b k body options w) = Inr (Some r)"
    using that
    by (auto simp: GCSStorageClient_uploadFile_def GCS_upload_failed_def
             split: prod.splits sum.splits if_splits)
  have s: "\<exists>sd. fst (upload ssdk (S3_upload_params b k body options) (cloud w)) = Inr sd
            \<and> bucket r' = sd_Bucket sd \<and> key r' = sd_Key sd \<and> location r' = sd_Location sd
            \<and> (sd_Bucket sd = b \<and> sd_Key sd = k \<longrightarrow> bucket r' = b \<and> key r' = k)"
    if "fst (S3StorageClient_uploadFile ssdk b k body options w) = Inr (Some r')"
    using that
    by (auto simp: S3StorageClient_uploadFile_def split: prod.splits sum.splits)
  have p: "up_Bucket (S3_upload_params b k body options) = b"
          "up_Key (S3_upload_params b k body options) = k"
    by (simp_all add: S3_upload_params_def)
  from g s p show ?thesis by blast
qed

theorem uploadFile_result_bucket_key_witness:
  "fst (GCSStorageClient_uploadFile mem_GCS (js ''b'') (js ''k'') [1] None empty_world) =
     Inr (Some \<lparr>location = js ''https://storage.googleapis.com/b/k'', bucket = js ''b'', key = js ''k''\<rparr>)
   \<and> fst (S3StorageClient_uploadFile mem_S3 (js ''b'') (js ''k'') [1] None empty_world) =
     Inr (Some \<lparr>location = js ''https://b.s3.amazonaws.com/k'', bucket = js ''b'', key = js ''k''\<rparr>)
   \<and> fst (upload mem_S3 (S3_upload_params (js ''b'') (js ''k'') [1] None) (cloud empty_world)) =
     Inr \<lparr>sd_Location = js ''https://b.s3.amazonaws.com/k'', sd_Bucket = js ''b'', sd_Key = js ''k''\<rparr>"
proof -
  have g: "fst (GCSStorageClient_uploadFile mem_GCS (js ''b'') (js ''k'') [1] None empty_world) =
     Inr (Some \<lparr>location = js ''https://storage.googleapis.com/b/k'', bucket = js ''b'', key = js ''k''\<rparr>)"
    by (simp add: GCSStorageClient_uploadFile_def mem_GCS_def empty_world_def opt_field_def js_def)
  have s: "fst (S3StorageClient_uploadFile mem_S3 (js ''b'') (js ''k'') [1] None empty_world) =
     Inr (Some \<lparr>location = js ''https://b.s3.amazonaws.com/k'', bucket = js ''b'', key = js ''k''\<rparr>)"
    by (simp add: S3StorageClient_uploadFile_def mem_S3_def S3_upload_params_def empty_world_def js_def)
  from uploadFile_result_bucket_key [of mem_GCS "js ''b''" "js ''k''" "[1]" None empty_world
          "\<lparr>location = js ''https://storage.googleapis.com/b/k'', bucket = js ''b'', key = js ''k''\<rparr>"
          mem_S3
          "\<lparr>location = js ''https://b.s3.amazonaws.com/k'', bucket = js ''b'', key = js ''k''\<rparr>"]
       g s
  show ?thesis by (auto simp: js_def)
qed

text \<open>
  The claim C3 as stated fails on the S3 client: against an endpoint whose response names
  the bucket and key differently, the result carries the response's names.
\<close>

theorem uploadFile_echo_counterexample:
  "fst (S3StorageClient_uploadFile renaming_S3 (js ''b'') (js ''k'') [1] None empty_world) =
     Inr (Some \<lparr>location = js ''https://b.s3.amazonaws.com/k'', bucket = js ''arn:b'',
                 key = js ''/k''\<rparr>)
   \<and> js ''arn:b'' \<noteq> js ''b'' \<and> js ''/k'' \<noteq> js ''k''"
  by (simp add: S3StorageClient_uploadFile_def renaming_S3_def mem_S3_def S3_upload_params_def
        empty_world_def js_def)

section \<open>The artifact cache\<close>

text \<open>
  C2, as amended: when the descriptor serializes and the client's \<open>uploadFile\<close> raises or
  returns absent, \<open>cacheObj\<close> raises an \<open>Error\<close> whose message is \<open>CacheObj failure: \<close>
  followed by the message of the cause (\<open>Failed to upload file\<close> when the client returned
  absent); the filename is a field of the error entry logged before, not part of the message.
\<close>

theorem cacheObj_write_failure:
  assumes "stringify j d = Inr text"
    and "uploadFile client imports f (Buffer_from j text)
           (Some \<lparr>contentType = None, cacheControl = Some (js ''public, max-age=31536000''),
                  acl = Some (js ''public-read'')\<rparr>) w = (r, w')"
    and "r = Inl e \<or> r = Inr None"
  shows "\<exists>cause. cause = (case r of Inl e' \<Rightarrow> e' | Inr x \<Rightarrow> Thrown JsError (js ''Failed to upload file''))
     \<and> cacheObj j client imports d f w =
        (Inl (Thrown JsError (js ''CacheObj failure: '' @ message cause)),
         w'\<lparr>logs := logs w' @
            [\<lparr>log_level = LogError,
              log_fields = [(''e'', LogExn cause), (''filename'', LogStr f), (''bucket'', LogStr imports)],
              log_msg = js ''unable to upload file to storage''\<rparr>]\<rparr>)"
  using assms by (auto simp: cacheObj_def cacheObj_failed_def logger_def)

theorem cacheObj_write_failure_witness:
  "fst (cacheObj text_json5 raising_client (js ''imports'') (js ''{}'') (js ''x.json'') empty_world) =
       Inl (Thrown JsError (js ''CacheObj failure: Service Unavailable''))
   \<and> logs (snd (cacheObj text_json5 raising_client (js ''imports'') (js ''{}'') (js ''x.json'') empty_world)) =
       [\<lparr>log_level = LogError,
         log_fields = [(''e'', LogExn unavailable), (''filename'', LogStr (js ''x.json'')),
                       (''bucket'', LogStr (js ''imports''))],
         log_msg = js ''unable to upload file to storage''\<rparr>]"
proof -
  have s: "stringify text_json5 (js ''{}'') = Inr (js ''{}'')" by (simp add: text_json5_def)
  have u: "uploadFile raising_client (js ''imports'') (js ''x.json'') (Buffer_from text_json5 (js ''{}''))
           (Some \<lparr>contentType = None, cacheControl = Some (js ''public, max-age=31536000''),
                  acl = Some (js ''public-read'')\<rparr>) empty_world = (Inl unavailable, empty_world)"
    by (simp add: raising_client_def)
  from cacheObj_write_failure [OF s u, of unavailable]
  show ?thesis by (simp add: unavailable_def empty_world_def js_def)
qed

text \<open>
  The claim C2 as stated fails: with an S3 client whose provider rejects the upload, the
  client returns absent and \<open>cacheObj\<close> raises \<open>CacheObj failure: Failed to upload file\<close>,
  which does not contain the filename \<open>x.json\<close>.
\<close>

theorem cacheObj_filename_counterexample:
  "fst (uploadFile down_S3_client (js ''imports'') (js ''x.json'') (Buffer_from text_json5 (js ''{}''))
          (Some \<lparr>contentType = None, cacheControl = Some (js ''public, max-age=31536000''),
                 acl = Some (js ''public-read'')\<rparr>) empty_world) = Inr None
   \<and> fst (cacheObj text_json5 down_S3_client (js ''imports'') (js ''{}'') (js ''x.json'') empty_world) =
       Inl (Thrown JsError (js ''CacheObj failure: Failed to upload file''))
   \<and> \<not> includes_str (js ''CacheObj failure: Failed to upload file'') (js ''x.json'')"
proof -
  have a: "fst (uploadFile down_S3_client (js ''imports'') (js ''x.json'') (Buffer_from text_json5 (js ''{}''))
          (Some \<lparr>contentType = None, cacheControl = Some (js ''public, max-age=31536000''),
                 acl = Some (js ''public-read'')\<rparr>) empty_world) = Inr None"
    by (simp add: down_S3_client_def S3StorageClient_uploadFile_def down_S3_def)
  have b: "fst (cacheObj text_json5 down_S3_client (js ''imports'') (js ''{}'') (js ''x.json'') empty_world) =
       Inl (Thrown JsError (js ''CacheObj failure: Failed to upload file''))"
    by (simp add: cacheObj_def cacheObj_failed_def text_json5_def down_S3_client_def
          S3StorageClient_uploadFile_def down_S3_def js_def)
  have c: "\<not> includes_str (js ''CacheObj failure: Failed to upload file'') (js ''x.json'')"
    by code_simp
  from a b c show ?thesis by blast
qed

text \<open>
  C6: \<open>getCachedObj\<close> never raises; when the client reports the file absent, when the
  client's read raises, and when the stored bytes do not parse, the result is absent, the
  same value in all three cases. With the S3 or the GCS client, a read the provider rejects
  (a missing object, a failed request) is such a case.
\<close>

theorem getCachedObj_absent_on_failure:
  "(\<exists>r w'. getCachedObj j client imports f w = (Inr r, w'))
   \<and> (fst (getFile client imports f w) = Inr None \<longrightarrow>
        fst (getCachedObj j client imports f w) = Inr None)
   \<and> (fst (getFile client imports f w) = Inl e \<longrightarrow>
        fst (getCachedObj j client imports f w) = Inr None)
   \<and> (fst (getFile client imports f w) = Inr (Some buf) \<and> parse j (toString j buf) = Inl e' \<longrightarrow>
        fst (getCachedObj j client imports f w) = Inr None)
   \<and> (S3StorageClient config ssdk = Inr client \<and> fst (getObject ssdk imports f (cloud w)) = Inl e \<longrightarrow>
        fst (getCachedObj j client imports f w) = Inr None)
   \<and> (GCSStorageClient config gsdk = Inr client \<and> fst (download gsdk imports f (cloud w)) = Inl e \<longrightarrow>
        fst (getCachedObj j client imports f w) = Inr None)"
proof -
  have a: "\<exists>r w'. getCachedObj j client imports f w = (Inr r, w')"
    by (auto simp: getCachedObj_def split: prod.splits sum.splits option.splits)
  have b: "fst (getCachedObj j client imports f w) = Inr None"
    if "fst (getFile client imports f w) = Inr None"
    using that by (auto simp: getCachedObj_def split: prod.splits)
  have c: "fst (getCachedObj j client imports f w) = Inr None"
    if "fst (getFile client imports f w) = Inl e"
    using that by (auto simp: getCachedObj_def split: prod.splits)
  have d: "fst (getCachedObj j client imports f w) = Inr None"
    if "fst (getFile client imports f w) = Inr (Some buf)" "parse j (toString j buf) = Inl e'"
    using that by (auto simp: getCachedObj_def split: prod.splits)
  have s: "fst (getFile client imports f w) = Inr None"
    if "S3StorageClient config ssdk = Inr client" "fst (getObject ssdk imports f (cloud w)) = Inl e"
    using that
    by (auto simp: S3StorageClient_def S3StorageClient_getFile_def split: if_splits prod.splits)
  have g: "fst (getFile client imports f w) = Inr None"
    if "GCSStorageClient config gsdk = Inr client" "fst (download gsdk imports f (cloud w)) = Inl e"
    using that
    by (auto simp: GCSStorageClient_def GCSStorageClient_getFile_def split: if_splits prod.splits)
  from a b c d s g show ?thesis by blast
qed

theorem getCachedObj_absent_on_failure_witness:
  "fst (getFile mem_GCS_client (js ''imports'') (js ''x.json'') empty_world) = Inr None
   \<and> fst (getCachedObj text_json5 mem_GCS_client (js ''imports'') (js ''x.json'') empty_world) = Inr None
   \<and> fst (getFile raising_client (js ''imports'') (js ''x.json'') empty_world) = Inl unavailable
   \<and> fst (getCachedObj text_json5 raising_client (js ''imports'') (js ''x.json'') empty_world) = Inr None
   \<and> fst (getFile mem_GCS_client (js ''imports'') (js ''x.json'')
             (snd (uploadFile mem_GCS_client (js ''imports'') (js ''x.json'') [] None empty_world))) =
       Inr (Some [])
   \<and> parse text_json5 (toString text_json5 []) = Inl (Thrown JsSyntaxError (js ''JSON5: invalid end of input''))
   \<and> fst (getCachedObj text_json5 mem_GCS_client (js ''imports'') (js ''x.json'')
             (snd (uploadFile mem_GCS_client (js ''imports'') (js ''x.json'') [] None empty_world))) =
       Inr None
   \<and> S3StorageClient s3_example_config down_S3 = Inr down_S3_client
   \<and> fst (getCachedObj text_json5 down_S3_client (js ''imports'') (js ''x.json'') empty_world) = Inr None
   \<and> GCSStorageClient gcs_example_config mem_GCS = Inr mem_GCS_client"
proof -
  let ?w1 = "snd (uploadFile mem_GCS_client (js ''imports'') (js ''x.json'') [] None empty_world)"
  let ?syn = "Thrown JsSyntaxError (js ''JSON5: invalid end of input'')"
  have m: "fst (getFile mem_GCS_client (js ''imports'') (js ''x.json'') empty_world) = Inr None"
    by (simp add: mem_GCS_client_def GCSStorageClient_getFile_def mem_GCS_def empty_world_def)
  have r: "fst (getFile raising_client (js ''imports'') (js ''x.json'') empty_world) = Inl unavailable"
    by (simp add: raising_client_def)
  have c: "fst (getFile mem_GCS_client (js ''imports'') (js ''x.json'') ?w1) = Inr (Some [])"
    by (simp add: mem_GCS_client_def GCSStorageClient_getFile_def GCSStorageClient_uploadFile_def
          mem_GCS_def empty_world_def opt_field_def)
  have p: "parse text_json5 (toString text_json5 []) = Inl ?syn"
    by (simp add: text_json5_def)
  have s: "S3StorageClient s3_example_config down_S3 = Inr down_S3_client"
    by (simp add: S3StorageClient_def s3_example_config_def down_S3_client_def)
  have s': "fst (getObject down_S3 (js ''imports'') (js ''x.json'') (cloud empty_world)) = Inl unavailable"
    by (simp add: down_S3_def)
  have g: "GCSStorageClient gcs_example_config mem_GCS = Inr mem_GCS_client"
    by (simp add: GCSStorageClient_def gcs_example_config_def mem_GCS_client_def)
  have g': "fst (download mem_GCS (js ''imports'') (js ''x.json'') (cloud empty_world)) = Inl no_such_key"
    by (simp add: mem_GCS_def empty_world_def)
  note t = getCachedObj_absent_on_failure
  from t [of text_json5 mem_GCS_client "js ''imports''" "js ''x.json''" empty_world
            no_such_key "[]" ?syn gcs_example_config down_S3 mem_GCS] m g g'
  have 1: "fst (getCachedObj text_json5 mem_GCS_client (js ''imports'') (js ''x.json'') empty_world) = Inr None"
    by blast
  from t [of text_json5 raising_client "js ''imports''" "js ''x.json''" empty_world
            unavailable "[]" ?syn gcs_example_config down_S3 mem_GCS] r
  have 2: "fst (getCachedObj text_json5 raising_client (js ''imports'') (js ''x.json'') empty_world) = Inr None"
    by blast
  from t [of text_json5 mem_GCS_client "js ''imports''" "js ''x.json''" ?w1
            unavailable "[]" ?syn gcs_example_config down_S3 mem_GCS] c p
  have 3: "fst (getCachedObj text_json5 mem_GCS_client (js ''imports'') (js ''x.json'') ?w1) = Inr None"
    by blast
  from t [of text_json5 down_S3_client "js ''imports''" "js ''x.json''" empty_world
            unavailable "[]" ?syn s3_example_config down_S3 mem_GCS] s s'
  have 4: "fst (getCachedObj text_json5 down_S3_client (js ''imports'') (js ''x.json'') empty_world) = Inr None"
    by blast
  from m r c p s g 1 2 3 4 show ?thesis by blast
qed

text \<open>
  C7, as amended: for a descriptor that \<open>json5\<close> serializes to a text it parses back to the
  descriptor, the text having no unpaired surrogate, when the client's upload to the imports
  bucket succeeds and the following read of the same filename returns the uploaded bytes,
  \<open>cacheObj\<close> returns normally and \<open>getCachedObj\<close> then returns the original descriptor.
\<close>

theorem cache_round_trip:
  assumes "json5_stringify d = Inr text"
    and "json5_parse text = Inr d"
    and "isWellFormed text"
    and "uploadFile client imports f (Buffer_from_utf8 text)
           (Some \<lparr>contentType = None, cacheControl = Some (js ''public, max-age=31536000''),
                  acl = Some (js ''public-read'')\<rparr>) w = (Inr (Some r), w1)"
    and "getFile client imports f w1 = (Inr (Some (Buffer_from_utf8 text)), w2)"
  shows "cacheObj (node_json5 json5_stringify json5_parse) client imports d f w = (Inr (), w1)
     \<and> getCachedObj (node_json5 json5_stringify json5_parse) client imports f w1 = (Inr (Some d), w2)"
proof -
  from assms(3) have rt: "toString_utf8 (Buffer_from_utf8 text) = text"
    by (rule Buffer_round_trip)
  from assms(1) assms(4) have put:
    "cacheObj (node_json5 json5_stringify json5_parse) client imports d f w = (Inr (), w1)"
    by (simp add: cacheObj_def node_json5_def)
  from assms(2) assms(5) rt have get:
    "getCachedObj (node_json5 json5_stringify json5_parse) client imports f w1 = (Inr (Some d), w2)"
    by (simp add: getCachedObj_def node_json5_def)
  from put get show ?thesis ..
qed

theorem cache_round_trip_witness:
  "isWellFormed (js ''{a:1}'')
   \<and> fst (cacheObj node_text_json5 mem_GCS_client (js ''imports'') (js ''{a:1}'') (js ''x.json'')
            empty_world) = Inr ()
   \<and> fst (getCachedObj node_text_json5 mem_GCS_client (js ''imports'') (js ''x.json'')
            (snd (cacheObj node_text_json5 mem_GCS_client (js ''imports'') (js ''{a:1}'')
                    (js ''x.json'') empty_world))) = Inr (Some (js ''{a:1}''))"
proof -
  let ?opts = "Some \<lparr>contentType = None, cacheControl = Some (js ''public, max-age=31536000''),
                  acl = Some (js ''public-read'')\<rparr>"
  let ?parse = "\<lambda>s. if s = [] then Inl (Thrown JsSyntaxError (js ''JSON5: invalid end of input''))
                     else Inr s"
  let ?body = "Buffer_from_utf8 (js ''{a:1}'')"
  let ?w1 = "snd (uploadFile mem_GCS_client (js ''imports'') (js ''x.json'') ?body ?opts empty_world)"
  let ?r = "\<lparr>location = js ''https://storage.googleapis.com/'' @ js ''imports'' @ js ''/'' @ js ''x.json'',
            bucket = js ''imports'', key = js ''x.json''\<rparr>"
  have wf: "isWellFormed (js ''{a:1}'')"
    by (simp add: js_def isLeadSurrogate_def isTrailSurrogate_def)
  have s: "Inr (js ''{a:1}'') = (Inr (js ''{a:1}'') :: js_exn + jsstring)" by simp
  have p: "?parse (js ''{a:1}'') = Inr (js ''{a:1}'')" by (simp add: js_def)
  have u: "uploadFile mem_GCS_client (js ''imports'') (js ''x.json'') ?body ?opts empty_world =
             (Inr (Some ?r), ?w1)"
    by (simp add: mem_GCS_client_def GCSStorageClient_uploadFile_def mem_GCS_def empty_world_def
          opt_field_def GCS_save_params_def)
  have g: "getFile mem_GCS_client (js ''imports'') (js ''x.json'') ?w1 = (Inr (Some ?body), ?w1)"
    by (simp add: mem_GCS_client_def GCSStorageClient_getFile_def GCSStorageClient_uploadFile_def
          mem_GCS_def empty_world_def opt_field_def GCS_save_params_def)
  from cache_round_trip [of Inr "js ''{a:1}''" "js ''{a:1}''" ?parse, OF s p wf u g] wf
  show ?thesis by (simp add: node_text_json5_def)
qed

text \<open>
  The claim C7 as stated fails for a descriptor whose text has an unpaired surrogate: the
  text parses back to the descriptor, the upload succeeds and the read returns the
  uploaded bytes, but \<open>Buffer.from\<close> has written U+FFFD for the surrogate and the descriptor
  read back is another one.
\<close>

theorem cache_round_trip_counterexample:
  "stringify node_text_json5 [0x61, 0xD800] = Inr [0x61, 0xD800]
   \<and> parse node_text_json5 [0x61, 0xD800] = Inr [0x61, 0xD800]
   \<and> fst (cacheObj node_text_json5 mem_GCS_client (js ''imports'') [0x61, 0xD800] (js ''x.json'')
            empty_world) = Inr ()
   \<and> fst (getFile mem_GCS_client (js ''imports'') (js ''x.json'')
            (snd (cacheObj node_text_json5 mem_GCS_client (js ''imports'') [0x61, 0xD800]
                    (js ''x.json'') empty_world))) =
       Inr (Some (Buffer_from node_text_json5 [0x61, 0xD800]))
   \<and> fst (getCachedObj node_text_json5 mem_GCS_client (js ''imports'') (js ''x.json'')
            (snd (cacheObj node_text_json5 mem_GCS_client (js ''imports'') [0x61, 0xD800]
                    (js ''x.json'') empty_world))) = Inr (Some [0x61, 0xFFFD])
   \<and> [0x61, 0xFFFD] \<noteq> [0x61, 0xD800 :: 16 word]"
proof -
  have enc: "Buffer_from_utf8 [0x61, 0xD800] = [0x61, 0xEF, 0xBF, 0xBD]"
    by (simp add: isLeadSurrogate_def isTrailSurrogate_def utf8Bytes_def utf8Octets_def)
  have dec: "toString_utf8 [0x61, 0xEF, 0xBF, 0xBD] = [0x61, 0xFFFD]"
    by (simp add: toString_utf8_def decoder_idle_def decoder_start_def utf16Units_def)
  show ?thesis
    by (simp add: node_text_json5_def node_json5_def cacheObj_def getCachedObj_def
          mem_GCS_client_def GCSStorageClient_uploadFile_def GCSStorageClient_getFile_def
          mem_GCS_def empty_world_def opt_field_def GCS_save_params_def enc dec
          del: Buffer_from_utf8.simps)
qed

section \<open>Configuration loading and backend selection\<close>

lemma bindE_eq_Inr: "bindE m f = Inr y \<longleftrightarrow> (\<exists>x. m = Inr x \<and> f x = Inr y)"
  by (cases m) (simp_all add: bindE_def)

lemma env_fallback_mode:
  "fallback_mode p \<Longrightarrow> \<not> truthy (penv p v) \<Longrightarrow> env p v tv = Inr (nullish tv (js ''noop''))"
  by (auto simp: env_def fallback_mode_def argv1_endsWith_cli_def Let_def)

lemma env_set: "truthy (penv p v) \<Longrightarrow> env p v tv = Inr (the (penv p v))"
  by (simp add: env_def Let_def)

lemma env_succeeds: "fallback_mode p \<Longrightarrow> \<exists>s. env p v tv = Inr s"
  using env_fallback_mode [of p v tv] env_set [of p v tv] by blast

lemma env_Inl_not_fallback: "env p v tv = Inl e \<Longrightarrow> \<not> fallback_mode p"
  using env_succeeds [of p v tv] by auto

lemma storage_section_succeeds:
  assumes "fallback_mode p"
  shows "\<exists>c'. storage_section p c = Inr c'"
proof -
  from env_succeeds [OF assms] obtain a1 where "env p (js ''GCS_PROJECT_ID'') None = Inr a1" by blast
  moreover from env_succeeds [OF assms] obtain a2 where "env p (js ''GCS_BUCKET'') None = Inr a2" by blast
  moreover from env_succeeds [OF assms] obtain a3 where "env p (js ''GCS_IMPORTS_BUCKET'') None = Inr a3" by blast
  moreover from env_succeeds [OF assms] obtain a4 where "env p (js ''AWS_ACCESS_KEY_ID'') None = Inr a4" by blast
  moreover from env_succeeds [OF assms] obtain a5 where "env p (js ''AWS_SECRET_ACCESS_KEY'') None = Inr a5" by blast
  moreover from env_succeeds [OF assms] obtain a6 where "env p (js ''S3_BUCKET'') None = Inr a6" by blast
  moreover from env_succeeds [OF assms] obtain a7 where "env p (js ''IMPORTS_S3_BUCKET'') None = Inr a7" by blast
  moreover from env_succeeds [OF assms] obtain a8 where "env p (js ''S3_REGION'') None = Inr a8" by blast
  ultimately show ?thesis by (simp add: storage_section_def)
qed

lemma sentry_section_succeeds:
  assumes "fallback_mode p"
  shows "\<exists>c'. sentry_section p c = Inr c'"
proof -
  from env_succeeds [OF assms] obtain a where "env p (js ''SENTRY_DSN'') None = Inr a" by blast
  then show ?thesis by (simp add: sentry_section_def)
qed

lemma load_config_succeeds:
  assumes "fallback_mode p"
  shows "\<exists>config. load_config parseInt pj p = Inr config"
proof -
  from env_succeeds [OF assms] obtain a1 where e1: "env p (js ''IMPORT_SERVER_URL'') None = Inr a1" by blast
  from env_succeeds [OF assms] obtain a2 where e2: "env p (js ''REDIS_URL'') None = Inr a2" by blast
  from env_succeeds [OF assms] obtain a3 where e3: "env p (js ''CLOUDFRONT_URL'') None = Inr a3" by blast
  from env_succeeds [OF assms] obtain a4 where
    e4: "env p (js ''API_SERVER_URL'') (Some (js ''https://test.exp.host'')) = Inr a4" by blast
  let ?c0 = "\<lparr>port = parseInt (nullish (penv p (js ''PORT'')) (js ''3012'')),
               registry = js ''https://registry.yarnpkg.com'',
               tmpdir = pj (nullish (penv p (js ''TMPDIR'')) (js ''/tmp'')) (js ''snackager''),
               url = a1,
               storageBackend = (if useGCS p then Backend_gcs else Backend_s3),
               redis_url = a2,
               aws = None, s3 = None, gcs = None,
               cloudfront_url = a3,
               api_url = a4,
               sentry_dsn = None\<rparr>"
  from storage_section_succeeds [OF assms] obtain c1 where c1: "storage_section p ?c0 = Inr c1" by blast
  from sentry_section_succeeds [OF assms] obtain c2 where c2: "sentry_section p c1 = Inr c2" by blast
  have "load_config parseInt pj p = Inr c2"
    unfolding load_config_def by (simp add: e1 e2 e3 e4 c1 c2)
  then show ?thesis by blast
qed

lemma storage_section_backend:
  "storage_section p c = Inr c' \<Longrightarrow>
     storageBackend c' = storageBackend c
     \<and> (useGCS p \<longrightarrow> gcs c' \<noteq> None) \<and> (\<not> useGCS p \<longrightarrow> s3 c' \<noteq> None \<and> aws c' \<noteq> None)"
  by (auto simp: storage_section_def bindE_eq_Inr split: if_splits)

lemma sentry_section_backend:
  "sentry_section p c = Inr c' \<Longrightarrow>
     storageBackend c' = storageBackend c \<and> gcs c' = gcs c \<and> s3 c' = s3 c \<and> aws c' = aws c"
  by (auto simp: sentry_section_def bindE_eq_Inr split: if_splits)

lemma load_config_backend:
  assumes "load_config parseInt pj p = Inr config"
  shows "storageBackend config = (if useGCS p then Backend_gcs else Backend_s3)"
    and "storageBackend config = Backend_s3 \<Longrightarrow> s3 config \<noteq> None \<and> aws config \<noteq> None"
    and "storageBackend config = Backend_gcs \<Longrightarrow> gcs config \<noteq> None"
proof -
  from assms obtain c0 c1 where
    c: "storage_section p c0 = Inr c1" "sentry_section p c1 = Inr config"
       "storageBackend c0 = (if useGCS p then Backend_gcs else Backend_s3)"
    unfolding load_config_def bindE_eq_Inr
    by (elim exE conjE) simp
  from storage_section_backend [OF c(1)] sentry_section_backend [OF c(2)] c(3)
  show "storageBackend config = (if useGCS p then Backend_gcs else Backend_s3)"
    and "storageBackend config = Backend_s3 \<Longrightarrow> s3 config \<noteq> None \<and> aws config \<noteq> None"
    and "storageBackend config = Backend_gcs \<Longrightarrow> gcs config \<noteq> None"
    by (auto split: if_splits)
qed

text \<open>
  C4, as amended: the backend is \<open>gcs\<close> exactly when \<open>GCS_PROJECT_ID\<close> or \<open>USE_GCS\<close> is set to a
  non-empty value, and \<open>s3\<close> otherwise; two environments that agree on these two variables
  select the same backend, whatever their other variables.
\<close>

theorem backend_selection:
  "(useGCS p \<longleftrightarrow>
      (\<exists>v. penv p (js ''GCS_PROJECT_ID'') = Some v \<and> v \<noteq> [])
      \<or> (\<exists>v. penv p (js ''USE_GCS'') = Some v \<and> v \<noteq> []))
   \<and> (load_config parseInt pj p = Inr config \<longrightarrow>
        storageBackend config = (if useGCS p then Backend_gcs else Backend_s3))
   \<and> (penv p (js ''GCS_PROJECT_ID'') = penv p' (js ''GCS_PROJECT_ID'')
        \<and> penv p (js ''USE_GCS'') = penv p' (js ''USE_GCS'') \<longrightarrow>
        useGCS p = useGCS p'
        \<and> (load_config parseInt pj p = Inr config \<and> load_config parseInt pj p' = Inr config' \<longrightarrow>
             storageBackend config = storageBackend config'))"
proof -
  have t: "truthy x \<longleftrightarrow> (\<exists>v. x = Some v \<and> v \<noteq> [])" for x :: "jsstring option"
    by (cases x) simp_all
  have a: "useGCS p \<longleftrightarrow>
      (\<exists>v. penv p (js ''GCS_PROJECT_ID'') = Some v \<and> v \<noteq> [])
      \<or> (\<exists>v. penv p (js ''USE_GCS'') = Some v \<and> v \<noteq> [])"
    by (simp add: useGCS_def t)
  have b: "storageBackend c = (if useGCS q then Backend_gcs else Backend_s3)"
    if "load_config parseInt pj q = Inr c" for q c
    using load_config_backend(1) [OF that] .
  have c: "useGCS p = useGCS p'"
    if "penv p (js ''GCS_PROJECT_ID'') = penv p' (js ''GCS_PROJECT_ID'')"
       "penv p (js ''USE_GCS'') = penv p' (js ''USE_GCS'')"
    using that by (simp add: useGCS_def)
  from a b c show ?thesis by metis
qed

theorem backend_selection_witness:
  "useGCS \<lparr>penv = [js ''USE_GCS'' \<mapsto> js ''1''], argv = [js ''node'', js ''cli.js'']\<rparr>
   \<and> (case load_config parseInt10 example_path_join
              \<lparr>penv = [js ''USE_GCS'' \<mapsto> js ''1''], argv = [js ''node'', js ''cli.js'']\<rparr> of
         Inl e \<Rightarrow> False
       | Inr config \<Rightarrow> storageBackend config = Backend_gcs)
   \<and> useGCS \<lparr>penv = [js ''USE_GCS'' \<mapsto> js ''1'', js ''PORT'' \<mapsto> js ''80''],
              argv = [js ''node'', js ''cli.js'']\<rparr>
   \<and> (case load_config parseInt10 example_path_join
              \<lparr>penv = [js ''USE_GCS'' \<mapsto> js ''1'', js ''PORT'' \<mapsto> js ''80''],
                argv = [js ''node'', js ''cli.js'']\<rparr> of
         Inl e \<Rightarrow> False
       | Inr config \<Rightarrow> port config = Some 80 \<and> storageBackend config = Backend_gcs)"
proof -
  let ?p = "\<lparr>penv = [js ''USE_GCS'' \<mapsto> js ''1''], argv = [js ''node'', js ''cli.js'']\<rparr>"
  let ?p' = "\<lparr>penv = [js ''USE_GCS'' \<mapsto> js ''1'', js ''PORT'' \<mapsto> js ''80''],
             argv = [js ''node'', js ''cli.js'']\<rparr>"
  let ?c = "\<lparr>port = Some (3012::int), registry = js ''https://registry.yarnpkg.com'',
            tmpdir = js ''/tmp/snackager'', url = js ''noop'', storageBackend = Backend_gcs,
            redis_url = js ''noop'', aws = None, s3 = None,
            gcs = Some \<lparr>gcs_projectId = js ''noop'', gcs_bucket = js ''noop'',
                         gcs_imports_bucket = js ''noop''\<rparr>,
            cloudfront_url = js ''noop'', api_url = js ''https://test.exp.host'',
            sentry_dsn = None\<rparr>"
  let ?c' = "\<lparr>port = Some (80::int), registry = js ''https://registry.yarnpkg.com'',
            tmpdir = js ''/tmp/snackager'', url = js ''noop'', storageBackend = Backend_gcs,
            redis_url = js ''noop'', aws = None, s3 = None,
            gcs = Some \<lparr>gcs_projectId = js ''noop'', gcs_bucket = js ''noop'',
                         gcs_imports_bucket = js ''noop''\<rparr>,
            cloudfront_url = js ''noop'', api_url = js ''https://test.exp.host'',
            sentry_dsn = None\<rparr>"
  have u: "penv ?p (js ''USE_GCS'') = Some (js ''1'')" "js ''1'' \<noteq> []"
    by (simp_all add: js_def)
  have l: "load_config parseInt10 example_path_join ?p = Inr ?c"
    by (simp add: load_config_def storage_section_def sentry_section_def env_def useGCS_def
          argv1_endsWith_cli_def endsWith_def nullish_def parseInt10_def isStrWhiteSpaceChar_def isDecimalDigit_def
          example_path_join_def js_def)
  have l': "load_config parseInt10 example_path_join ?p' = Inr ?c'"
    by (simp add: load_config_def storage_section_def sentry_section_def env_def useGCS_def
          argv1_endsWith_cli_def endsWith_def nullish_def parseInt10_def isStrWhiteSpaceChar_def isDecimalDigit_def
          example_path_join_def js_def)
  have agree: "penv ?p (js ''GCS_PROJECT_ID'') = penv ?p' (js ''GCS_PROJECT_ID'')
        \<and> penv ?p (js ''USE_GCS'') = penv ?p' (js ''USE_GCS'')"
    by (simp add: js_def)
  note sel = backend_selection [of ?p parseInt10 example_path_join ?c ?p' ?c']
  from sel u have g: "useGCS ?p" by blast
  from sel agree have "useGCS ?p = useGCS ?p'" by blast
  with g have g': "useGCS ?p'" by simp
  from sel [THEN conjunct2, THEN conjunct1] l
  have b: "storageBackend ?c = (if useGCS ?p then Backend_gcs else Backend_s3)" by (rule mp)
  from sel agree l l' have "storageBackend ?c = storageBackend ?c'" by blast
  with b g have b': "storageBackend ?c' = Backend_gcs" by simp
  from l l' g g' b b' show ?thesis by simp
qed

text \<open>
  The claim C4 as stated fails: with \<open>GCS_PROJECT_ID\<close> set to the empty string the variable
  is set, and the backend is \<open>s3\<close>.
\<close>

theorem backend_selection_counterexample:
  "penv empty_project_process (js ''GCS_PROJECT_ID'') = Some []
   \<and> \<not> useGCS empty_project_process
   \<and> (case load_config parseInt10 example_path_join empty_project_process of
         Inl e \<Rightarrow> False
       | Inr config \<Rightarrow> storageBackend config = Backend_s3)"
proof -
  have a: "penv empty_project_process (js ''GCS_PROJECT_ID'') = Some []"
    by (simp add: empty_project_process_def)
  have b: "\<not> useGCS empty_project_process"
    by (simp add: useGCS_def empty_project_process_def js_def)
  have m: "fallback_mode empty_project_process"
    by (simp add: fallback_mode_def empty_project_process_def js_def)
  from load_config_succeeds [OF m] obtain config where
    c: "load_config parseInt10 example_path_join empty_project_process = Inr config"
    by blast
  from load_config_backend(1) [OF c] b have "storageBackend config = Backend_s3" by simp
  with a b c show ?thesis by simp
qed

text \<open>
  C10: when the variable is unset and \<open>NODE_ENV\<close> is \<open>test\<close> or the entry script ends in
  \<open>cli.js\<close>, \<open>env\<close> returns the test value, \<open>noop\<close> when none is given; in these modes
  loading the configuration succeeds whatever is set, so \<open>env\<close> and the loader raise only
  outside them.
\<close>

theorem env_fallback:
  "(penv p varName = None \<and> fallback_mode p \<longrightarrow>
      env p varName testValue = Inr (case testValue of None \<Rightarrow> js ''noop'' | Some t \<Rightarrow> t))
   \<and> (fallback_mode p \<longrightarrow> (\<exists>config. load_config parseInt pj p = Inr config))
   \<and> (env p varName testValue = Inl e \<longrightarrow> \<not> fallback_mode p)
   \<and> (load_config parseInt pj p = Inl e \<longrightarrow> \<not> fallback_mode p)"
proof -
  have a: "env p varName testValue = Inr (case testValue of None \<Rightarrow> js ''noop'' | Some t \<Rightarrow> t)"
    if "penv p varName = None" "fallback_mode p"
    using env_fallback_mode [of p varName testValue] that by (simp add: nullish_def)
  have b: "\<exists>config. load_config parseInt pj p = Inr config" if "fallback_mode p"
    using load_config_succeeds [OF that] .
  have c: "\<not> fallback_mode p" if "env p varName testValue = Inl e"
    using env_Inl_not_fallback [OF that] .
  have d: "\<not> fallback_mode p" if "load_config parseInt pj p = Inl e"
    using load_config_succeeds [of p parseInt pj] that by auto
  from a b c d show ?thesis by blast
qed

theorem env_fallback_witness:
  "penv test_process (js ''REDIS_URL'') = None \<and> fallback_mode test_process
   \<and> env test_process (js ''REDIS_URL'') None = Inr (js ''noop'')
   \<and> (\<exists>config. load_config parseInt10 example_path_join test_process = Inr config)
   \<and> env \<lparr>penv = Map.empty, argv = [js ''node'', js ''server.js'']\<rparr> (js ''REDIS_URL'') None =
       Inl (Thrown JsError (js ''environment variable REDIS_URL isn't specified''))
   \<and> load_config parseInt10 example_path_join
         \<lparr>penv = Map.empty, argv = [js ''node'', js ''server.js'']\<rparr> =
       Inl (Thrown JsError (js ''environment variable IMPORT_SERVER_URL isn't specified''))
   \<and> \<not> fallback_mode \<lparr>penv = Map.empty, argv = [js ''node'', js ''server.js'']\<rparr>"
proof -
  let ?q = "\<lparr>penv = Map.empty, argv = [js ''node'', js ''server.js'']\<rparr>"
  let ?e = "Thrown JsError (js ''environment variable REDIS_URL isn't specified'')"
  let ?e' = "Thrown JsError (js ''environment variable IMPORT_SERVER_URL isn't specified'')"
  have u: "penv test_process (js ''REDIS_URL'') = None"
    by (simp add: test_process_def js_def)
  have m: "fallback_mode test_process"
    by (simp add: fallback_mode_def test_process_def js_def)
  have r: "env ?q (js ''REDIS_URL'') None = Inl ?e"
    by (simp add: env_def argv1_endsWith_cli_def endsWith_def js_def)
  have r': "load_config parseInt10 example_path_join ?q = Inl ?e'"
    by (simp add: load_config_def env_def argv1_endsWith_cli_def endsWith_def js_def)
  note t = env_fallback [of test_process "js ''REDIS_URL''" None parseInt10 example_path_join ?e]
  note t' = env_fallback [of ?q "js ''REDIS_URL''" None parseInt10 example_path_join ?e]
  note t'' = env_fallback [of ?q "js ''REDIS_URL''" None parseInt10 example_path_join ?e']
  from t u m have 1: "env test_process (js ''REDIS_URL'') None = Inr (js ''noop'')" by simp
  from t m have 2: "\<exists>config. load_config parseInt10 example_path_join test_process = Inr config"
    by blast
  from t' r have 3: "\<not> fallback_mode ?q" by blast
  from t'' r' have 4: "\<not> fallback_mode ?q" by blast
  from u m r r' 1 2 3 4 show ?thesis by blast
qed

section \<open>The redirect utility\<close>

text \<open>
  C8: \<open>addS3Redirect\<close> never raises. When the backend is not S3 it logs one warning and
  returns absent. When the backend is S3 (a loaded configuration then has its S3 section)
  its one provider call is \<open>putObject\<close> with the key, an empty body, ACL \<open>public-read\<close>,
  cache-control \<open>no-cache\<close> and redirect location \<open>/destination\<close>; it returns the provider's
  acknowledgment when that call resolves and absent when it is rejected.
\<close>

theorem addS3Redirect_behaviour:
  "(\<exists>r w'. addS3Redirect config sdk k destination w = (Inr r, w'))
   \<and> (storageBackend config \<noteq> Backend_s3 \<longrightarrow>
        addS3Redirect config sdk k destination w =
          (Inr None,
           w\<lparr>logs := logs w @
              [\<lparr>log_level = LogWarn,
                log_fields = [(''key'', LogStr k), (''destination'', LogStr destination)],
                log_msg = js ''S3 redirect not supported with current storage backend''\<rparr>]\<rparr>))
   \<and> (load_config parseInt pj p = Inr config \<and> storageBackend config = Backend_s3 \<longrightarrow>
        s3 config \<noteq> None)
   \<and> (storageBackend config = Backend_s3 \<and> s3 config = Some s3c \<longrightarrow>
        cloud (snd (addS3Redirect config sdk k destination w)) =
          snd (putObject sdk
                 \<lparr>put_Bucket = s3_bucket s3c, put_Key = k, put_Body = [],
                  put_ACL = js ''public-read'', put_CacheControl = js ''no-cache'',
                  put_WebsiteRedirectLocation = js ''/'' @ destination\<rparr> (cloud w))
        \<and> fst (addS3Redirect config sdk k destination w) =
          (case fst (putObject sdk
                 \<lparr>put_Bucket = s3_bucket s3c, put_Key = k, put_Body = [],
                  put_ACL = js ''public-read'', put_CacheControl = js ''no-cache'',
                  put_WebsiteRedirectLocation = js ''/'' @ destination\<rparr> (cloud w)) of
             Inr ack \<Rightarrow> Inr (Some ack)
           | Inl error \<Rightarrow> Inr None))"
proof -
  have a: "\<exists>r w'. addS3Redirect config sdk k destination w = (Inr r, w')"
    by (auto simp: addS3Redirect_def split: prod.splits sum.splits)
  have b: "addS3Redirect config sdk k destination w =
          (Inr None,
           w\<lparr>logs := logs w @
              [\<lparr>log_level = LogWarn,
                log_fields = [(''key'', LogStr k), (''destination'', LogStr destination)],
                log_msg = js ''S3 redirect not supported with current storage backend''\<rparr>]\<rparr>)"
    if "storageBackend config \<noteq> Backend_s3"
    using that by (simp add: addS3Redirect_def logger_def)
  have c: "s3 config \<noteq> None"
    if "load_config parseInt pj p = Inr config" "storageBackend config = Backend_s3"
    using load_config_backend(2) [OF that] by simp
  have d: "cloud (snd (addS3Redirect config sdk k destination w)) =
          snd (putObject sdk
                 \<lparr>put_Bucket = s3_bucket s3c, put_Key = k, put_Body = [],
                  put_ACL = js ''public-read'', put_CacheControl = js ''no-cache'',
                  put_WebsiteRedirectLocation = js ''/'' @ destination\<rparr> (cloud w))
        \<and> fst (addS3Redirect config sdk k destination w) =
          (case fst (putObject sdk
                 \<lparr>put_Bucket = s3_bucket s3c, put_Key = k, put_Body = [],
                  put_ACL = js ''public-read'', put_CacheControl = js ''no-cache'',
                  put_WebsiteRedirectLocation = js ''/'' @ destination\<rparr> (cloud w)) of
             Inr ack \<Rightarrow> Inr (Some ack)
           | Inl error \<Rightarrow> Inr None)"
    if "storageBackend config = Backend_s3" "s3 config = Some s3c"
    using that by (simp add: addS3Redirect_def logger_def split: prod.splits sum.splits)
  from a b c d show ?thesis by blast
qed

theorem addS3Redirect_behaviour_witness:
  "fst (addS3Redirect gcs_example_config mem_S3 (js ''k'') (js ''dest'') empty_world) = Inr None
   \<and> map log_level (logs (snd (addS3Redirect gcs_example_config mem_S3 (js ''k'') (js ''dest'')
                                   empty_world))) = [LogWarn]
   \<and> load_config parseInt10 example_path_join test_process = Inr s3_example_config
   \<and> s3 s3_example_config \<noteq> None
   \<and> fst (addS3Redirect s3_example_config mem_S3 (js ''k'') (js ''dest'') empty_world) =
       Inr (Some (js ''etag''))
   \<and> cloud (snd (addS3Redirect s3_example_config mem_S3 (js ''k'') (js ''dest'') empty_world))
        (js ''artifacts'', js ''k'') =
       Some \<lparr>obj_content = [], obj_acl = js ''public-read'', obj_cacheControl = js ''no-cache'',
             obj_contentType = None, obj_redirect = Some (js ''/dest'')\<rparr>
   \<and> fst (addS3Redirect s3_example_config down_S3 (js ''k'') (js ''dest'') empty_world) = Inr None"
proof -
  let ?s3c = "\<lparr>s3_bucket = js ''artifacts'', s3_imports_bucket = js ''imports'',
              s3_region = js ''us-west-1''\<rparr>"
  have l: "load_config parseInt10 example_path_join test_process = Inr s3_example_config"
    by (simp add: load_config_def storage_section_def sentry_section_def env_def useGCS_def
          argv1_endsWith_cli_def endsWith_def nullish_def parseInt10_def isStrWhiteSpaceChar_def isDecimalDigit_def
          example_path_join_def test_process_def s3_example_config_def js_def)
  have bg: "storageBackend gcs_example_config \<noteq> Backend_s3"
    by (simp add: gcs_example_config_def)
  have bs: "storageBackend s3_example_config = Backend_s3" "s3 s3_example_config = Some ?s3c"
    by (simp_all add: s3_example_config_def)
  note tg = addS3Redirect_behaviour [of gcs_example_config mem_S3 "js ''k''" "js ''dest''" empty_world
              parseInt10 example_path_join test_process ?s3c]
  note ts = addS3Redirect_behaviour [of s3_example_config mem_S3 "js ''k''" "js ''dest''" empty_world
              parseInt10 example_path_join test_process ?s3c]
  note td = addS3Redirect_behaviour [of s3_example_config down_S3 "js ''k''" "js ''dest''" empty_world
              parseInt10 example_path_join test_process ?s3c]
  from tg bg have 1: "fst (addS3Redirect gcs_example_config mem_S3 (js ''k'') (js ''dest'') empty_world) = Inr None"
    and 2: "map log_level (logs (snd (addS3Redirect gcs_example_config mem_S3 (js ''k'') (js ''dest'')
                                   empty_world))) = [LogWarn]"
    by (simp_all add: empty_world_def)
  from ts l bs have 3: "s3 s3_example_config \<noteq> None" by blast
  from ts bs have 4: "fst (addS3Redirect s3_example_config mem_S3 (js ''k'') (js ''dest'') empty_world) =
       Inr (Some (js ''etag''))"
    and 5: "cloud (snd (addS3Redirect s3_example_config mem_S3 (js ''k'') (js ''dest'') empty_world))
        (js ''artifacts'', js ''k'') =
       Some \<lparr>obj_content = [], obj_acl = js ''public-read'', obj_cacheControl = js ''no-cache'',
             obj_contentType = None, obj_redirect = Some (js ''/dest'')\<rparr>"
    by (simp_all add: mem_S3_def empty_world_def js_def)
  from td bs have 6: "fst (addS3Redirect s3_example_config down_S3 (js ''k'') (js ''dest'') empty_world) = Inr None"
    by (simp add: down_S3_def)
  from 1 2 l 3 4 5 6 show ?thesis by blast
qed

end
